theory Spec2Isabelle
  imports Main "HOL-Library.Word"
begin

unbundle bit_operations_syntax

section \<open>The C2S stream of jackal (c2s/c2s.go)\<close>

text \<open>
  A shallow embedding of the client-to-server stream engine. The stream is a record that
  is passed through every handler and returned updated. Everything the stream does to
  the outside (the transport, the router, the storage, the feature modules) is appended
  to a trace of events, in program order; logging is left out. The packages the stream
  calls and that are not among the sources (router, xml, auth, storage) are a record of
  functions, the environment, that every handler takes as its first argument.
\<close>

subsection \<open>Constants\<close>

datatype stream_state =
  connecting | connected | authenticating | authenticated | sessionStarted | disconnected

definition jabberClientNamespace :: string where
  "jabberClientNamespace = ''jabber:client''"
definition framedStreamNamespace :: string where
  "framedStreamNamespace = ''urn:ietf:params:xml:ns:xmpp-framing''"
definition streamNamespace :: string where
  "streamNamespace = ''http://etherx.jabber.org/streams''"
definition tlsNamespace :: string where
  "tlsNamespace = ''urn:ietf:params:xml:ns:xmpp-tls''"
definition compressProtocolNamespace :: string where
  "compressProtocolNamespace = ''http://jabber.org/protocol/compress''"
definition bindNamespace :: string where
  "bindNamespace = ''urn:ietf:params:xml:ns:xmpp-bind''"
definition sessionNamespace :: string where
  "sessionNamespace = ''urn:ietf:params:xml:ns:xmpp-session''"
definition saslNamespace :: string where
  "saslNamespace = ''urn:ietf:params:xml:ns:xmpp-sasl''"
definition blockedErrorNamespace :: string where
  "blockedErrorNamespace = ''urn:xmpp:blocking:errors''"

subsection \<open>The xml package: elements, JIDs, stanzas\<close>

text \<open>
  Modelled from the spec: the package xml (element tree, JID, stanza predicates) is
  imported by c2s.go and is not among the sources. An element is a name, an attribute
  list in insertion order, a text and the ordered children; the namespace of an element
  is its attribute xmlns. An accessor of an absent attribute returns the empty string, as
  every caller in c2s.go that tests the length of the result expects.
\<close>

datatype element =
  Element (Name: string) (Attributes: "(string \<times> string) list") (Text: string)
    (Elements: "element list")

definition Get :: "(string \<times> string) list \<Rightarrow> string \<Rightarrow> string" where
  "Get as k = (case map_of as k of None \<Rightarrow> [] | Some v \<Rightarrow> v)"

definition Namespace :: "element \<Rightarrow> string" where
  "Namespace e = Get (Attributes e) ''xmlns''"
definition To :: "element \<Rightarrow> string" where
  "To e = Get (Attributes e) ''to''"
definition From :: "element \<Rightarrow> string" where
  "From e = Get (Attributes e) ''from''"
definition Version :: "element \<Rightarrow> string" where
  "Version e = Get (Attributes e) ''version''"
definition ID :: "element \<Rightarrow> string" where
  "ID e = Get (Attributes e) ''id''"
definition Type :: "element \<Rightarrow> string" where
  "Type e = Get (Attributes e) ''type''"

definition Child :: "element list \<Rightarrow> string \<Rightarrow> element option" where
  "Child es n = find (\<lambda>c. Name c = n) es"
definition ChildNamespace :: "element list \<Rightarrow> string \<Rightarrow> string \<Rightarrow> element option" where
  "ChildNamespace es n ns = find (\<lambda>c. Name c = n \<and> Namespace c = ns) es"

definition NewElementName :: "string \<Rightarrow> element" where
  "NewElementName n = Element n [] [] []"

fun SetAttribute :: "element \<Rightarrow> string \<Rightarrow> string \<Rightarrow> element" where
  "SetAttribute (Element n as t cs) k v =
     Element n (if k \<in> fst ` set as then map (\<lambda>(k', v'). if k' = k then (k', v) else (k', v')) as
                else as @ [(k, v)]) t cs"

definition SetNamespace :: "element \<Rightarrow> string \<Rightarrow> element" where
  "SetNamespace e ns = SetAttribute e ''xmlns'' ns"

definition NewElementNamespace :: "string \<Rightarrow> string \<Rightarrow> element" where
  "NewElementNamespace n ns = SetNamespace (NewElementName n) ns"

fun SetText :: "element \<Rightarrow> string \<Rightarrow> element" where
  "SetText (Element n as t cs) t' = Element n as t' cs"

fun AppendElements :: "element \<Rightarrow> element list \<Rightarrow> element" where
  "AppendElements (Element n as t cs) es = Element n as t (cs @ es)"

definition AppendElement :: "element \<Rightarrow> element \<Rightarrow> element" where
  "AppendElement e c = AppendElements e [c]"

record JID =
  node :: string
  domain :: string
  resource :: string

definition ToBareJID :: "JID \<Rightarrow> JID" where
  "ToBareJID j = j\<lparr>resource := []\<rparr>"

definition IsServer :: "JID \<Rightarrow> bool" where
  "IsServer j = (node j = [] \<and> resource j = [])"
definition IsBare :: "JID \<Rightarrow> bool" where
  "IsBare j = (resource j = [])"
definition IsFullWithUser :: "JID \<Rightarrow> bool" where
  "IsFullWithUser j = (node j \<noteq> [] \<and> resource j \<noteq> [])"

datatype stanza_kind = IQKind | PresenceKind | MessageKind

record stanza =
  kind :: stanza_kind
  elem :: element
  fromJID :: JID
  toJID :: JID

definition IsGet :: "stanza \<Rightarrow> bool" where
  "IsGet iq = (Type (elem iq) = ''get'')"
definition IsSet :: "stanza \<Rightarrow> bool" where
  "IsSet iq = (Type (elem iq) = ''set'')"
definition IsChat :: "stanza \<Rightarrow> bool" where
  "IsChat m = (Type (elem m) = ''chat'')"
definition IsGroupChat :: "stanza \<Rightarrow> bool" where
  "IsGroupChat m = (Type (elem m) = ''groupchat'')"
definition IsMessageWithBody :: "stanza \<Rightarrow> bool" where
  "IsMessageWithBody m = (Child (Elements (elem m)) ''body'' \<noteq> None)"
definition IsAvailable :: "stanza \<Rightarrow> bool" where
  "IsAvailable p = (Type (elem p) = [])"
definition IsUnavailable :: "stanza \<Rightarrow> bool" where
  "IsUnavailable p = (Type (elem p) = ''unavailable'')"
definition Status :: "stanza \<Rightarrow> string" where
  "Status p = (case Child (Elements (elem p)) ''status'' of None \<Rightarrow> [] | Some c \<Rightarrow> Text c)"

subsection \<open>Errors\<close>

text \<open>
  The stream errors of package errors (imported as streamerror) and the stanza errors of
  package xml that c2s.go names. An error returned by buildStanza is one or the other.
\<close>

datatype stream_error =
  ErrInvalidXML | ErrInvalidNamespace | ErrHostUnknown | ErrInvalidFrom
  | ErrConnectionTimeout | ErrUnsupportedStanzaType | ErrUnsupportedVersion
  | ErrNotAuthorized | ErrResourceConstraint | ErrPolicyViolation

datatype stanza_error =
  ErrBadRequest | ErrJidMalformed | ErrNotAllowed | ErrConflict | ErrServiceUnavailable
  | ErrNotAcceptable

datatype build_error = StreamErr stream_error | StanzaErr stanza_error

text \<open>The errors of router.Route; a nil error is \<open>None\<close>.\<close>

datatype router_error =
  ErrNotExistingAccount | ErrResourceNotFound | ErrNotAuthenticated | ErrBlockedJID
  | ErrOtherRouting

text \<open>The error of Authenticator.ProcessElement: a SASL error with its element, or another.\<close>

datatype auth_error = SASLError element | OtherAuthError

text \<open>The argument of disconnect: nil, a stream error, or any other error.\<close>

datatype disconnect_error = NoError | StreamError stream_error | OtherError

subsection \<open>Configuration\<close>

text \<open>
  Modelled from the spec: the type Config is declared in a file of package c2s that is
  not among the sources; these are the options c2s.go reads.
\<close>

datatype transport_type = Socket | WebSocket

datatype resource_conflict_policy = Disallow | Override | Replace

datatype compress_level = NoCompression | DefaultCompression | BestCompression | SpeedCompression

record Config =
  ConnectTimeout :: int
  MaxStanzaSize :: int
  ResourceConflict :: resource_conflict_policy
  CompressionLevel :: compress_level
  SASL :: "string list"
  ModulesEnabled :: "string set"
  RosterVersioning :: bool

subsection \<open>Authenticators and modules\<close>

datatype scram_type = ScramSHA1 | ScramSHA256

datatype authenticator = Plain | DigestMD5 | Scram scram_type bool

text \<open>
  Modelled from the spec: the mechanism names of package auth (PLAIN, DIGEST-MD5,
  SCRAM-SHA-1, SCRAM-SHA-256, each SCRAM one with a PLUS variant for channel binding).
\<close>

fun Mechanism :: "authenticator \<Rightarrow> string" where
  "Mechanism Plain = ''PLAIN''"
| "Mechanism DigestMD5 = ''DIGEST-MD5''"
| "Mechanism (Scram ScramSHA1 False) = ''SCRAM-SHA-1''"
| "Mechanism (Scram ScramSHA1 True) = ''SCRAM-SHA-1-PLUS''"
| "Mechanism (Scram ScramSHA256 False) = ''SCRAM-SHA-256''"
| "Mechanism (Scram ScramSHA256 True) = ''SCRAM-SHA-256-PLUS''"

text \<open>
  An authenticator object of the stream: its mechanism and the elements it has processed
  since its last Reset. What it answers is a function of both, given by the environment.
\<close>

record authr =
  mech :: authenticator
  processed :: "element list"

datatype module =
  DiscoInfoModule | RosterModule | LastActivityModule | PrivateModule | VCardModule
  | RegisterModule | VersionModule | BlockingCommandModule | PingModule

subsection \<open>The environment\<close>

text \<open>
  The router instance, the JID and stanza constructors of package xml, the serializer,
  the authenticators, the IQ handlers' match predicates, the storage, the uuid generator
  and SHA-256 are parameters. A stream bound to the same bare JID is known to this stream
  by its id and its resource. A stanza constructor gives the element of the stanza it
  builds from the received element and the two JIDs, or fails. An authenticator answers
  from its mechanism and the elements it has processed. The uuid generator is read at the
  number of identifiers this stream has drawn so far.
\<close>

record env =
  IsLocalDomain :: "string \<Rightarrow> bool"
  DefaultLocalDomain :: string
  Route :: "stanza \<Rightarrow> router_error option"
  IsBlockedJID :: "JID \<Rightarrow> string \<Rightarrow> bool"
  StreamsMatchingJID :: "JID \<Rightarrow> (string \<times> string) list"
  stringPrep :: "string \<Rightarrow> string \<Rightarrow> string \<Rightarrow> JID option"
  NewJIDString :: "string \<Rightarrow> JID option"
  NewIQFromElement :: "element \<Rightarrow> JID \<Rightarrow> JID \<Rightarrow> element option"
  NewPresenceFromElement :: "element \<Rightarrow> JID \<Rightarrow> JID \<Rightarrow> element option"
  NewMessageFromElement :: "element \<Rightarrow> JID \<Rightarrow> JID \<Rightarrow> element option"
  Priority :: "stanza \<Rightarrow> 8 word"
  ToXML :: "element \<Rightarrow> bool \<Rightarrow> string"
  AuthrProcessElement :: "authr \<Rightarrow> element \<Rightarrow> auth_error option"
  AuthrAuthenticated :: "authr \<Rightarrow> bool"
  AuthrUsername :: "authr \<Rightarrow> string"
  MatchesIQ :: "module \<Rightarrow> stanza \<Rightarrow> bool"
  FetchUser :: "string \<Rightarrow> bool"
  uuidNew :: "nat \<Rightarrow> string"
  sha256 :: "string \<Rightarrow> 8 word list"

subsection \<open>The stream\<close>

text \<open>
  The context of a stream (router.Context) is read by c2s.go under ten fixed keys; a key
  never set reads as false, the empty string or nil. It is a record with these defaults.
\<close>

record stream_context =
  usernameCtx :: string
  domainCtx :: string
  resourceCtx :: string
  jidCtx :: JID
  securedCtx :: bool
  authenticatedCtx :: bool
  compressedCtx :: bool
  presenceCtx :: "stanza option"
  rosterOnceCtx :: bool
  offlineOnceCtx :: bool
  terminated :: bool

datatype event =
    WriteElement element
  | WriteStanzaError element stanza_error "element list"
  | WriteStreamError stream_error
  | WriteString string
  | StartTLS
  | EnableCompression compress_level
  | Close
  | NewParser
  | ConnectTmStop
  | RouterRoute stanza
  | RouterAuthenticateStream
  | RouterUnregisterStream
  | PeerDisconnect string stream_error
  | PostDisconnect stream_error
  | ModuleProcessIQ module stanza
  | RosterProcessPresence stanza
  | RosterDeliverPendingApprovalNotifications
  | RosterReceivePresences
  | RosterBroadcastPresence stanza
  | RosterBroadcastPresenceAndWait JID
  | OfflineDeliverOfflineMessages
  | OfflineArchiveMessage stanza
  | PingResetDeadline
  | PingStartPinging
  | StorageInsertOrUpdateUser string "string option"

record stream =
  cfg :: Config
  tr :: transport_type
  streamID :: string
  connectTm :: bool
  state :: stream_state
  ctx :: stream_context
  authrs :: "authr list"
  activeAuthr :: "nat option"
  iqHandlers :: "module list"
  roster :: bool
  discoInfo :: bool
  register :: bool
  ping :: bool
  blockCmd :: bool
  offline :: bool
  uuids :: nat
  trace :: "event list"

subsection \<open>Accessors and elementary operations\<close>

definition emit :: "event \<Rightarrow> stream \<Rightarrow> stream" where
  "emit ev s = s\<lparr>trace := trace s @ [ev]\<rparr>"

definition writeElement :: "stream \<Rightarrow> element \<Rightarrow> stream" where
  "writeElement s element = emit (WriteElement element) s"

text \<open>
  Writing xml.NewErrorElementFromElement(e, err, app); the error methods of a stanza
  (ConflictError, ServiceUnavailableError and so on) are this call with no application
  element.
\<close>

definition writeStanzaError :: "stream \<Rightarrow> element \<Rightarrow> stanza_error \<Rightarrow> element list \<Rightarrow> stream" where
  "writeStanzaError s e err app = emit (WriteStanzaError e err app) s"

definition Username :: "stream \<Rightarrow> string" where
  "Username s = usernameCtx (ctx s)"
definition Domain' :: "stream \<Rightarrow> string" where
  "Domain' s = domainCtx (ctx s)"
definition Resource :: "stream \<Rightarrow> string" where
  "Resource s = resourceCtx (ctx s)"
definition JID' :: "stream \<Rightarrow> JID" where
  "JID' s = jidCtx (ctx s)"
definition IsAuthenticated :: "stream \<Rightarrow> bool" where
  "IsAuthenticated s = authenticatedCtx (ctx s)"
definition IsSecured :: "stream \<Rightarrow> bool" where
  "IsSecured s = securedCtx (ctx s)"
definition IsCompressed :: "stream \<Rightarrow> bool" where
  "IsCompressed s = compressedCtx (ctx s)"
definition Presence :: "stream \<Rightarrow> stanza option" where
  "Presence s = presenceCtx (ctx s)"

definition setState :: "stream \<Rightarrow> stream_state \<Rightarrow> stream" where
  "setState s st = s\<lparr>state := st\<rparr>"
definition getState :: "stream \<Rightarrow> stream_state" where
  "getState s = state s"

definition restart :: "stream \<Rightarrow> stream" where
  "restart s = setState (emit NewParser s) connecting"

text \<open>
  Modelled from the spec: xml.NewJID(node, domain, resource, skipStringPrep) is not among
  the sources. The parts of a JID pass stringprep, a parameter of the environment, which
  may normalise them or fail; with skipStringPrep they are taken as they are and there is
  no error.
\<close>

definition NewJID :: "env \<Rightarrow> string \<Rightarrow> string \<Rightarrow> string \<Rightarrow> bool \<Rightarrow> JID option" where
  "NewJID e n d r skipStringPrep =
     (if skipStringPrep then Some \<lparr>node = n, domain = d, resource = r\<rparr> else stringPrep e n d r)"

definition xmlProlog :: string where
  "xmlProlog = ''<?xml version='' @ [CHR 0x22] @ ''1.0'' @ [CHR 0x22] @ ''?>''"

definition closeFrame :: string where
  "closeFrame = ''<close xmlns='' @ [CHR 0x22] @ framedStreamNamespace @ [CHR 0x22] @ '' />''"

definition openStream :: "env \<Rightarrow> stream \<Rightarrow> stream" where
  "openStream e s =
     (let (ops, buf, includeClosing) =
        (case tr s of
           Socket \<Rightarrow>
             (SetAttribute (SetAttribute (NewElementName ''stream:stream'')
                 ''xmlns'' jabberClientNamespace) ''xmlns:stream'' streamNamespace,
              xmlProlog, False)
         | WebSocket \<Rightarrow>
             (SetAttribute (NewElementName ''open'') ''xmlns'' framedStreamNamespace, [], True));
          ops = SetAttribute ops ''id'' (uuidNew e (uuids s));
          s = s\<lparr>uuids := Suc (uuids s)\<rparr>;
          ops = SetAttribute ops ''from'' (Domain' s);
          ops = SetAttribute ops ''version'' ''1.0''
      in emit (WriteString (buf @ ToXML e ops includeClosing)) s)"

definition updateLogoutInfo :: "env \<Rightarrow> stream \<Rightarrow> stream" where
  "updateLogoutInfo e s =
     (case Presence s of
        None \<Rightarrow> s
      | Some presence \<Rightarrow>
          if FetchUser e (Username s)
          then emit (StorageInsertOrUpdateUser (Username s)
                 (if IsUnavailable presence then Some (Status presence) else None)) s
          else s)"

definition disconnectClosingStream :: "env \<Rightarrow> stream \<Rightarrow> bool \<Rightarrow> stream" where
  "disconnectClosingStream e s closeStream =
     (let s = updateLogoutInfo e s;
          s = (case Presence s of
                 None \<Rightarrow> s
               | Some presence \<Rightarrow>
                   if IsAvailable presence \<and> roster s
                   then emit (RosterBroadcastPresenceAndWait (JID' s)) s else s);
          s = (if closeStream
               then (case tr s of
                       Socket \<Rightarrow> emit (WriteString ''</stream:stream>'') s
                     | WebSocket \<Rightarrow> emit (WriteString closeFrame) s)
               else s);
          s = s\<lparr>ctx := (ctx s)\<lparr>terminated := True\<rparr>\<rparr>;
          s = emit RouterUnregisterStream s;
          s = setState s disconnected
      in emit Close s)"

definition disconnectWithStreamError :: "env \<Rightarrow> stream \<Rightarrow> stream_error \<Rightarrow> stream" where
  "disconnectWithStreamError e s err =
     (let s = (if getState s = connecting then openStream e s else s);
          s = emit (WriteStreamError err) s
      in disconnectClosingStream e s True)"

definition disconnect :: "env \<Rightarrow> stream \<Rightarrow> disconnect_error \<Rightarrow> stream" where
  "disconnect e s err =
     (case err of
        NoError \<Rightarrow> disconnectClosingStream e s False
      | StreamError strmErr \<Rightarrow> disconnectWithStreamError e s strmErr
      | OtherError \<Rightarrow> disconnectClosingStream e s False)"

subsection \<open>Validation and stanza building\<close>

definition validateStreamElement :: "env \<Rightarrow> stream \<Rightarrow> element \<Rightarrow> stream_error option" where
  "validateStreamElement e s el =
     (let r = (case tr s of
                 Socket \<Rightarrow>
                   if Name el \<noteq> ''stream:stream'' then Some ErrUnsupportedStanzaType
                   else if Namespace el \<noteq> jabberClientNamespace
                           \<or> Get (Attributes el) ''xmlns:stream'' \<noteq> streamNamespace
                   then Some ErrInvalidNamespace else None
               | WebSocket \<Rightarrow>
                   if Name el \<noteq> ''open'' then Some ErrUnsupportedStanzaType
                   else if Namespace el \<noteq> framedStreamNamespace then Some ErrInvalidNamespace
                   else None)
      in case r of
           Some err \<Rightarrow> Some err
         | None \<Rightarrow>
             let to = To el in
             if length to > 0 \<and> \<not> IsLocalDomain e to then Some ErrHostUnknown
             else if Version el \<noteq> ''1.0'' then Some ErrUnsupportedVersion
             else None)"

definition validateNamespace :: "element \<Rightarrow> stream_error option" where
  "validateNamespace el =
     (let ns = Namespace el in
      if length ns = 0 \<or> ns = jabberClientNamespace then None else Some ErrInvalidNamespace)"

definition isValidFrom :: "env \<Rightarrow> stream \<Rightarrow> string \<Rightarrow> bool" where
  "isValidFrom e s from =
     (case NewJIDString e from of
        None \<Rightarrow> False
      | Some j \<Rightarrow>
          let userJID = JID' s;
              validFrom = (node j = node userJID \<and> domain j = domain userJID)
          in if length (resource j) > 0 then validFrom \<and> resource j = resource userJID
             else validFrom)"

definition extractAddresses :: "env \<Rightarrow> stream \<Rightarrow> element \<Rightarrow> bool \<Rightarrow> build_error + (JID \<times> JID)" where
  "extractAddresses e s el validateFrom =
     (let from = From el in
      if validateFrom \<and> length from > 0 \<and> \<not> isValidFrom e s from
      then Inl (StreamErr ErrInvalidFrom)
      else
        let fromJID' = JID' s; to = To el in
        if length to > 0
        then (case NewJIDString e to of
                None \<Rightarrow> Inl (StanzaErr ErrJidMalformed)
              | Some toJID' \<Rightarrow> Inr (fromJID', toJID'))
        else Inr (fromJID', ToBareJID (JID' s)))"

definition buildStanza :: "env \<Rightarrow> stream \<Rightarrow> element \<Rightarrow> bool \<Rightarrow> build_error + stanza" where
  "buildStanza e s el validateFrom =
     (case validateNamespace el of
        Some err \<Rightarrow> Inl (StreamErr err)
      | None \<Rightarrow>
          (case extractAddresses e s el validateFrom of
             Inl err \<Rightarrow> Inl err
           | Inr (fromJID', toJID') \<Rightarrow>
               if Name el = ''iq''
               then (case NewIQFromElement e el fromJID' toJID' of
                       None \<Rightarrow> Inl (StanzaErr ErrBadRequest)
                     | Some iq \<Rightarrow>
                         Inr \<lparr>kind = IQKind, elem = iq, fromJID = fromJID', toJID = toJID'\<rparr>)
               else if Name el = ''presence''
               then (case NewPresenceFromElement e el fromJID' toJID' of
                       None \<Rightarrow> Inl (StanzaErr ErrBadRequest)
                     | Some presence \<Rightarrow>
                         Inr \<lparr>kind = PresenceKind, elem = presence, fromJID = fromJID',
                              toJID = toJID'\<rparr>)
               else if Name el = ''message''
               then (case NewMessageFromElement e el fromJID' toJID' of
                       None \<Rightarrow> Inl (StanzaErr ErrBadRequest)
                     | Some message \<Rightarrow>
                         Inr \<lparr>kind = MessageKind, elem = message, fromJID = fromJID',
                              toJID = toJID'\<rparr>)
               else Inl (StreamErr ErrUnsupportedStanzaType)))"

definition handleElementError :: "env \<Rightarrow> stream \<Rightarrow> element \<Rightarrow> build_error \<Rightarrow> stream" where
  "handleElementError e s el err =
     (case err of
        StreamErr streamErr \<Rightarrow> disconnectWithStreamError e s streamErr
      | StanzaErr stanzaErr \<Rightarrow> writeStanzaError s el stanzaErr [])"

subsection \<open>Creation\<close>

definition NewContext :: stream_context where
  "NewContext = \<lparr>usernameCtx = [], domainCtx = [], resourceCtx = [],
     jidCtx = \<lparr>node = [], domain = [], resource = []\<rparr>, securedCtx = False,
     authenticatedCtx = False, compressedCtx = False, presenceCtx = None,
     rosterOnceCtx = False, offlineOnceCtx = False, terminated = False\<rparr>"

definition NewAuthr :: "authenticator \<Rightarrow> authr" where
  "NewAuthr m = \<lparr>mech = m, processed = []\<rparr>"

text \<open>The body of the loop of initializeAuthenticators: the switch on one configured name.\<close>

definition appendAuthenticators :: "authr list \<Rightarrow> string \<Rightarrow> authr list" where
  "appendAuthenticators as a =
     (if a = ''plain'' then as @ [NewAuthr Plain]
      else if a = ''digest_md5'' then as @ [NewAuthr DigestMD5]
      else if a = ''scram_sha_1''
      then (as @ [NewAuthr (Scram ScramSHA1 False)]) @ [NewAuthr (Scram ScramSHA1 True)]
      else if a = ''scram_sha_256''
      then (as @ [NewAuthr (Scram ScramSHA256 False)]) @ [NewAuthr (Scram ScramSHA256 True)]
      else as)"

primrec initializeAuthenticators :: "string list \<Rightarrow> authr list \<Rightarrow> authr list" where
  "initializeAuthenticators [] as = as"
| "initializeAuthenticators (a # rest) as =
     initializeAuthenticators rest (appendAuthenticators as a)"

definition New :: "env \<Rightarrow> string \<Rightarrow> transport_type \<Rightarrow> Config \<Rightarrow> stream" where
  "New e ident t c =
     (let s = \<lparr>cfg = c, tr = t, streamID = ident, connectTm = False, state = connecting,
                ctx = NewContext, authrs = [], activeAuthr = None, iqHandlers = [],
                roster = False, discoInfo = False, register = False, ping = False,
                blockCmd = False, offline = False, uuids = 0, trace = [NewParser]\<rparr>;
          secured = (\<not> (t = Socket));
          s = s\<lparr>ctx := (ctx s)\<lparr>securedCtx := secured\<rparr>\<rparr>;
          domain' = DefaultLocalDomain e;
          s = s\<lparr>ctx := (ctx s)\<lparr>domainCtx := domain'\<rparr>\<rparr>;
          s = (case NewJID e [] domain' [] True of
                 Some j \<Rightarrow> s\<lparr>ctx := (ctx s)\<lparr>jidCtx := j\<rparr>\<rparr>
               | None \<Rightarrow> s);
          s = s\<lparr>authrs := initializeAuthenticators (SASL c) (authrs s)\<rparr>;
          s = (if ''registration'' \<in> ModulesEnabled c then s\<lparr>register := True\<rparr> else s)
      in if ConnectTimeout c > 0 then s\<lparr>connectTm := True\<rparr> else s)"

text \<open>
  initializeModules: a module that is created is a field that is no longer nil, and an IQ
  handler appended to the list. What the constructors of the modules do, and the
  registration of the default entities of service discovery, is inside the modules.
\<close>

definition initializeModules :: "stream \<Rightarrow> stream" where
  "initializeModules s =
     (let en = ModulesEnabled (cfg s);
          s = s\<lparr>discoInfo := True, iqHandlers := iqHandlers s @ [DiscoInfoModule]\<rparr>;
          s = s\<lparr>roster := True, iqHandlers := iqHandlers s @ [RosterModule]\<rparr>;
          s = (if ''last_activity'' \<in> en
               then s\<lparr>iqHandlers := iqHandlers s @ [LastActivityModule]\<rparr> else s);
          s = (if ''private'' \<in> en
               then s\<lparr>iqHandlers := iqHandlers s @ [PrivateModule]\<rparr> else s);
          s = (if ''vcard'' \<in> en
               then s\<lparr>iqHandlers := iqHandlers s @ [VCardModule]\<rparr> else s);
          s = (if register s
               then s\<lparr>iqHandlers := iqHandlers s @ [RegisterModule]\<rparr> else s);
          s = (if ''version'' \<in> en
               then s\<lparr>iqHandlers := iqHandlers s @ [VersionModule]\<rparr> else s);
          s = (if ''blocking_command'' \<in> en
               then s\<lparr>blockCmd := True, iqHandlers := iqHandlers s @ [BlockingCommandModule]\<rparr>
               else s);
          s = (if ''ping'' \<in> en
               then s\<lparr>ping := True, iqHandlers := iqHandlers s @ [PingModule]\<rparr> else s)
      in if ''offline'' \<in> en then s\<lparr>offline := True\<rparr> else s)"

subsection \<open>Stream features and the stream open\<close>

definition unauthenticatedFeatures :: "stream \<Rightarrow> element list" where
  "unauthenticatedFeatures s =
     (let features = [];
          isSocketTransport = (tr s = Socket);
          features =
            (if isSocketTransport \<and> \<not> IsSecured s
             then features @
               [AppendElement (SetNamespace (NewElementName ''starttls'')
                  ''urn:ietf:params:xml:ns:xmpp-tls'') (NewElementName ''required'')]
             else features);
          shouldOfferSASL = (\<not> isSocketTransport \<or> (isSocketTransport \<and> IsSecured s));
          features =
            (if shouldOfferSASL \<and> length (authrs s) > 0
             then features @
               [foldl (\<lambda>mechanisms athr.
                    AppendElement mechanisms
                      (SetText (NewElementName ''mechanism'') (Mechanism (mech athr))))
                  (SetNamespace (NewElementName ''mechanisms'') saslNamespace) (authrs s)]
             else features);
          allowRegistration = IsSecured s
      in if ''registration'' \<in> ModulesEnabled (cfg s) \<and> allowRegistration
         then features @
           [NewElementNamespace ''register'' ''http://jabber.org/features/iq-register'']
         else features)"

definition authenticatedFeatures :: "stream \<Rightarrow> element list" where
  "authenticatedFeatures s =
     (let features = [];
          isSocketTransport = (tr s = Socket);
          compressionAvailable =
            (isSocketTransport \<and> CompressionLevel (cfg s) \<noteq> NoCompression);
          features =
            (if \<not> IsCompressed s \<and> compressionAvailable
             then features @
               [AppendElement
                  (NewElementNamespace ''compression'' ''http://jabber.org/features/compress'')
                  (SetText (NewElementName ''method'') ''zlib'')]
             else features);
          features = features @
            [AppendElement (NewElementNamespace ''bind'' ''urn:ietf:params:xml:ns:xmpp-bind'')
               (NewElementName ''required'')];
          features = features @
            [NewElementNamespace ''session'' ''urn:ietf:params:xml:ns:xmpp-session'']
      in if roster s \<and> RosterVersioning (cfg s)
         then features @ [NewElementNamespace ''ver'' ''urn:xmpp:features:rosterver'']
         else features)"

definition handleConnecting :: "env \<Rightarrow> stream \<Rightarrow> element \<Rightarrow> stream" where
  "handleConnecting e s el =
     (let s = (if connectTm s then (emit ConnectTmStop s)\<lparr>connectTm := False\<rparr> else s)
      in case validateStreamElement e s el of
           Some err \<Rightarrow> disconnectWithStreamError e s err
         | None \<Rightarrow>
             let s = s\<lparr>ctx := (ctx s)\<lparr>domainCtx := To el\<rparr>\<rparr>;
                 s = openStream e s;
                 features = NewElementName ''stream:features'';
                 features = SetAttribute features ''xmlns:stream'' streamNamespace;
                 features = SetAttribute features ''version'' ''1.0''
             in if \<not> IsAuthenticated s
                then writeElement (setState s connected)
                       (AppendElements features (unauthenticatedFeatures s))
                else writeElement (setState s authenticated)
                       (AppendElements features (authenticatedFeatures s)))"

subsection \<open>TLS, compression, authentication\<close>

definition proceedStartTLS :: "env \<Rightarrow> stream \<Rightarrow> stream" where
  "proceedStartTLS e s =
     (if IsSecured s then disconnectWithStreamError e s ErrNotAuthorized
      else
        let s = s\<lparr>ctx := (ctx s)\<lparr>securedCtx := True\<rparr>\<rparr>;
            s = writeElement s (NewElementNamespace ''proceed'' tlsNamespace);
            s = emit StartTLS s
        in restart s)"

definition compress :: "env \<Rightarrow> stream \<Rightarrow> element \<Rightarrow> stream" where
  "compress e s el =
     (if IsCompressed s then disconnectWithStreamError e s ErrUnsupportedStanzaType
      else
        let method = Child (Elements el) ''method'' in
        if method = None \<or> length (case method of None \<Rightarrow> [] | Some m \<Rightarrow> Text m) = 0
        then writeElement s
               (AppendElement (NewElementNamespace ''failure'' compressProtocolNamespace)
                  (NewElementName ''setup-failed''))
        else if (case method of None \<Rightarrow> [] | Some m \<Rightarrow> Text m) \<noteq> ''zlib''
        then writeElement s
               (AppendElement (NewElementNamespace ''failure'' compressProtocolNamespace)
                  (NewElementName ''unsupported-method''))
        else
          let s = s\<lparr>ctx := (ctx s)\<lparr>compressedCtx := True\<rparr>\<rparr>;
              s = writeElement s (NewElementNamespace ''compressed'' compressProtocolNamespace);
              s = emit (EnableCompression (CompressionLevel (cfg s))) s
          in restart s)"

text \<open>
  Authenticator.Reset on the active authenticator: \<open>activeAuthr\<close> is a pointer to one
  of the objects of \<open>authrs\<close>, here its index.
\<close>

definition resetActiveAuthr :: "stream \<Rightarrow> stream" where
  "resetActiveAuthr s =
     (case activeAuthr s of
        None \<Rightarrow> s
      | Some i \<Rightarrow>
          s\<lparr>authrs := (if i < length (authrs s)
                        then (authrs s)[i := (authrs s ! i)\<lparr>processed := []\<rparr>]
                        else authrs s),
            activeAuthr := None\<rparr>)"

definition failAuthentication :: "stream \<Rightarrow> element \<Rightarrow> stream" where
  "failAuthentication s el =
     (let s = writeElement s (AppendElement (NewElementNamespace ''failure'' saslNamespace) el);
          s = resetActiveAuthr s
      in setState s connected)"

definition finishAuthentication :: "env \<Rightarrow> stream \<Rightarrow> string \<Rightarrow> stream" where
  "finishAuthentication e s username =
     (let s = resetActiveAuthr s;
          j = NewJID e username (Domain' s) [] True;
          s = s\<lparr>ctx := (ctx s)\<lparr>usernameCtx := username\<rparr>\<rparr>;
          s = s\<lparr>ctx := (ctx s)\<lparr>authenticatedCtx := True\<rparr>\<rparr>;
          s = (case j of Some j' \<Rightarrow> s\<lparr>ctx := (ctx s)\<lparr>jidCtx := j'\<rparr>\<rparr> | None \<Rightarrow> s)
      in restart s)"

text \<open>
  Modelled from the spec: the element of auth.ErrSASLTemporaryAuthFailure, sent when an
  authenticator fails with an error that is not a SASL error.
\<close>

definition temporaryAuthFailure :: element where
  "temporaryAuthFailure = NewElementName ''temporary-auth-failure''"

text \<open>
  continueAuthentication runs the authenticator at index \<open>i\<close> on the element; the
  authenticator has then processed one element more. The error is returned with the stream.
\<close>

definition continueAuthentication :: "env \<Rightarrow> stream \<Rightarrow> element \<Rightarrow> nat \<Rightarrow> stream \<times> auth_error option" where
  "continueAuthentication e s el i =
     (let a = authrs s ! i;
          err = AuthrProcessElement e a el;
          s = s\<lparr>authrs := (authrs s)[i := a\<lparr>processed := processed a @ [el]\<rparr>]\<rparr>
      in case err of
           Some (SASLError saslEl) \<Rightarrow> (failAuthentication s saslEl, err)
         | Some OtherAuthError \<Rightarrow> (failAuthentication s temporaryAuthFailure, err)
         | None \<Rightarrow> (s, err))"

fun findMechanism :: "authr list \<Rightarrow> string \<Rightarrow> nat \<Rightarrow> nat option" where
  "findMechanism [] mechanism i = None"
| "findMechanism (a # as) mechanism i =
     (if Mechanism (mech a) = mechanism then Some i else findMechanism as mechanism (Suc i))"

definition startAuthentication :: "env \<Rightarrow> stream \<Rightarrow> element \<Rightarrow> stream" where
  "startAuthentication e s el =
     (let mechanism = Get (Attributes el) ''mechanism'' in
      case findMechanism (authrs s) mechanism 0 of
        Some i \<Rightarrow>
          (case continueAuthentication e s el i of
             (s, Some err) \<Rightarrow> s
           | (s, None) \<Rightarrow>
               if AuthrAuthenticated e (authrs s ! i)
               then finishAuthentication e s (AuthrUsername e (authrs s ! i))
               else setState (s\<lparr>activeAuthr := Some i\<rparr>) authenticating)
      | None \<Rightarrow>
          writeElement s
            (AppendElement (NewElementNamespace ''failure'' saslNamespace)
               (NewElementName ''invalid-mechanism'')))"

subsection \<open>Resource binding and session start\<close>

text \<open>encoding/hex.EncodeToString: two lower-case hexadecimal digits for each byte.\<close>

definition hextable :: string where
  "hextable = ''0123456789abcdef''"

definition EncodeToString :: "8 word list \<Rightarrow> string" where
  "EncodeToString src =
     concat (map (\<lambda>v. [hextable ! unat (drop_bit 4 v), hextable ! unat (v AND 0x0f)]) src)"

text \<open>Modelled from the spec: xml.NewIQType(id, "result") and IQ.ResultIQ of package xml.\<close>

definition NewIQType :: "string \<Rightarrow> string \<Rightarrow> element" where
  "NewIQType ident t = SetAttribute (SetAttribute (NewElementName ''iq'') ''id'' ident) ''type'' t"

definition ResultIQ :: "stanza \<Rightarrow> element" where
  "ResultIQ iq = NewIQType (ID (elem iq)) ''result''"

definition bindResource :: "env \<Rightarrow> stream \<Rightarrow> stanza \<Rightarrow> stream" where
  "bindResource e s iq =
     (case ChildNamespace (Elements (elem iq)) ''bind'' bindNamespace of
        None \<Rightarrow> writeStanzaError s (elem iq) ErrNotAllowed []
      | Some bind \<Rightarrow>
          let (resource', s) =
                (case Child (Elements bind) ''resource'' of
                   Some resourceElem \<Rightarrow> (Text resourceElem, s)
                 | None \<Rightarrow> (uuidNew e (uuids s), s\<lparr>uuids := Suc (uuids s)\<rparr>));
              stms = StreamsMatchingJID e (ToBareJID (JID' s));
              stm = foldl (\<lambda>stm s'. if snd s' = resource' then Some s' else stm) None stms
          in case (case stm of
                     None \<Rightarrow> Inr (resource', s)
                   | Some other \<Rightarrow>
                       (case ResourceConflict (cfg s) of
                          Override \<Rightarrow> Inr (EncodeToString (sha256 e (streamID s)), s)
                        | Replace \<Rightarrow>
                            Inr (resource', emit (PeerDisconnect (fst other) ErrResourceConstraint) s)
                        | Disallow \<Rightarrow> Inl (writeStanzaError s (elem iq) ErrConflict []))) of
               Inl s \<Rightarrow> s
             | Inr (resource', s) \<Rightarrow>
                 (case NewJID e (Username s) (Domain' s) resource' False of
                    None \<Rightarrow> writeStanzaError s (elem iq) ErrBadRequest []
                  | Some userJID \<Rightarrow>
                      let s = s\<lparr>ctx := (ctx s)\<lparr>resourceCtx := resource'\<rparr>\<rparr>;
                          s = s\<lparr>ctx := (ctx s)\<lparr>jidCtx := userJID\<rparr>\<rparr>;
                          result = NewIQType (ID (elem iq)) ''result'';
                          result = SetNamespace result (Namespace (elem iq));
                          binded = NewElementNamespace ''bind'' bindNamespace;
                          jid = NewElementName ''jid'';
                          jid = SetText jid (Username s @ ''@'' @ Domain' s @ ''/'' @ Resource s);
                          binded = AppendElement binded jid;
                          result = AppendElement result binded;
                          s = writeElement s result
                      in emit RouterAuthenticateStream s))"

definition startSession :: "stream \<Rightarrow> stanza \<Rightarrow> stream" where
  "startSession s iq =
     (if length (Resource s) = 0 then emit (PostDisconnect ErrNotAuthorized) s
      else
        (case ChildNamespace (Elements (elem iq)) ''session'' sessionNamespace of
           None \<Rightarrow> writeStanzaError s (elem iq) ErrNotAllowed []
         | Some sess \<Rightarrow>
             let s = writeElement s (ResultIQ iq);
                 s = initializeModules s;
                 s = (if ping s then emit PingStartPinging s else s)
             in setState s sessionStarted))"

subsection \<open>Handlers before the session\<close>

definition handleConnected :: "env \<Rightarrow> stream \<Rightarrow> element \<Rightarrow> stream" where
  "handleConnected e s el =
     (if Name el = ''starttls''
      then (if length (Namespace el) > 0 \<and> Namespace el \<noteq> tlsNamespace
            then disconnectWithStreamError e s ErrInvalidNamespace
            else proceedStartTLS e s)
      else if Name el = ''auth''
      then (if Namespace el \<noteq> saslNamespace
            then disconnectWithStreamError e s ErrInvalidNamespace
            else startAuthentication e s el)
      else if Name el = ''iq''
      then (case buildStanza e s el False of
              Inl err \<Rightarrow> handleElementError e s el err
            | Inr iq \<Rightarrow>
                if register s \<and> MatchesIQ e RegisterModule iq
                then emit (ModuleProcessIQ RegisterModule iq) s
                else if ChildNamespace (Elements (elem iq)) ''query'' ''jabber:iq:auth'' \<noteq> None
                then writeStanzaError s (elem iq) ErrServiceUnavailable []
                else disconnectWithStreamError e s ErrNotAuthorized)
      else if Name el = ''message'' \<or> Name el = ''presence''
      then disconnectWithStreamError e s ErrNotAuthorized
      else disconnectWithStreamError e s ErrUnsupportedStanzaType)"

text \<open>
  handleAuthenticating calls the active authenticator; were there none (or were the index
  outside the list, which no handler brings about), the call on the nil authenticator
  would panic and the handler would not return: \<open>None\<close>.
\<close>

definition handleAuthenticating :: "env \<Rightarrow> stream \<Rightarrow> element \<Rightarrow> stream option" where
  "handleAuthenticating e s el =
     (if Namespace el \<noteq> saslNamespace
      then Some (disconnectWithStreamError e s ErrInvalidNamespace)
      else
        (case activeAuthr s of
           None \<Rightarrow> None
         | Some i \<Rightarrow>
             if i < length (authrs s)
             then (let (s, err) = continueAuthentication e s el i in
                   if AuthrAuthenticated e (authrs s ! i)
                   then Some (finishAuthentication e s (AuthrUsername e (authrs s ! i)))
                   else Some s)
             else None))"

definition handleAuthenticated :: "env \<Rightarrow> stream \<Rightarrow> element \<Rightarrow> stream" where
  "handleAuthenticated e s el =
     (if Name el = ''compress''
      then (if Namespace el \<noteq> compressProtocolNamespace
            then disconnectWithStreamError e s ErrUnsupportedStanzaType
            else compress e s el)
      else if Name el = ''iq''
      then (case buildStanza e s el True of
              Inl err \<Rightarrow> handleElementError e s el err
            | Inr iq \<Rightarrow>
                if length (Resource s) = 0 then bindResource e s iq else startSession s iq)
      else disconnectWithStreamError e s ErrUnsupportedStanzaType)"

subsection \<open>Stanza dispatch in a started session\<close>

definition isBlockedJID :: "env \<Rightarrow> stream \<Rightarrow> JID \<Rightarrow> bool" where
  "isBlockedJID e s jid =
     (if IsServer jid \<and> IsLocalDomain e (domain jid) then False
      else IsBlockedJID e jid (Username s))"

definition isComponentDomain :: "stream \<Rightarrow> string \<Rightarrow> bool" where
  "isComponentDomain s d = False"

definition processComponentStanza :: "stream \<Rightarrow> stanza \<Rightarrow> stream" where
  "processComponentStanza s st = s"

definition processIQ :: "env \<Rightarrow> stream \<Rightarrow> stanza \<Rightarrow> stream" where
  "processIQ e s iq =
     (let toJID' = toJID iq in
      if \<not> IsLocalDomain e (domain toJID') then s
      else if length (node toJID') > 0 \<and> IsBlockedJID e (JID' s) (node toJID')
      then (if IsGet iq \<or> IsSet iq then writeStanzaError s (elem iq) ErrServiceUnavailable []
            else s)
      else if IsFullWithUser toJID'
      then (let s = emit (RouterRoute iq) s in
            case Route e iq of
              Some ErrResourceNotFound \<Rightarrow> writeStanzaError s (elem iq) ErrServiceUnavailable []
            | _ \<Rightarrow> s)
      else
        (case find (\<lambda>handler. MatchesIQ e handler iq) (iqHandlers s) of
           Some handler \<Rightarrow> emit (ModuleProcessIQ handler iq) s
         | None \<Rightarrow>
             if IsGet iq \<or> IsSet iq then writeStanzaError s (elem iq) ErrServiceUnavailable []
             else s))"

definition processPresence :: "env \<Rightarrow> stream \<Rightarrow> stanza \<Rightarrow> stream" where
  "processPresence e s presence =
     (let toJID' = toJID presence in
      if \<not> IsLocalDomain e (domain toJID') then s
      else if IsBare toJID' \<and> (node toJID' \<noteq> Username s \<or> domain toJID' \<noteq> Domain' s)
      then (if roster s then emit (RosterProcessPresence presence) s else s)
      else if IsFullWithUser toJID' then emit (RouterRoute presence) s
      else
        let s = s\<lparr>ctx := (ctx s)\<lparr>presenceCtx := Some presence\<rparr>\<rparr>;
            s = (if roster s
                 then (let s = (if \<not> rosterOnceCtx (ctx s)
                                then (let s = emit RosterDeliverPendingApprovalNotifications s;
                                          s = emit RosterReceivePresences s
                                      in s\<lparr>ctx := (ctx s)\<lparr>rosterOnceCtx := True\<rparr>\<rparr>)
                                else s)
                       in emit (RosterBroadcastPresence presence) s)
                 else s)
        in case Presence s of
             None \<Rightarrow> s
           | Some p \<Rightarrow>
               if offline s \<and> 0 \<le> sint (Priority e p)
               then (if \<not> offlineOnceCtx (ctx s)
                     then (let s = emit OfflineDeliverOfflineMessages s
                           in s\<lparr>ctx := (ctx s)\<lparr>offlineOnceCtx := True\<rparr>\<rparr>)
                     else s)
               else s)"

text \<open>
  The label sendMessage of processMessage and the goto back to it. The jump is taken
  again whenever the router answers ErrResourceNotFound, so the loop need not end: the
  result is \<open>None\<close> when it runs forever. The local variable toJID is the only thing the
  jump changes; the call of Route takes the message.
\<close>

partial_function (option) sendMessage :: "env \<Rightarrow> stream \<Rightarrow> stanza \<Rightarrow> JID \<Rightarrow> stream option" where
  "sendMessage e s message toJID' =
     (let err = Route e message;
          s = emit (RouterRoute message) s
      in case err of
           None \<Rightarrow> Some s
         | Some ErrNotAuthenticated \<Rightarrow>
             if offline s
             then (if (IsChat message \<or> IsGroupChat message) \<and> IsMessageWithBody message
                   then Some s
                   else Some (emit (OfflineArchiveMessage message) s))
             else Some s
         | Some ErrResourceNotFound \<Rightarrow> sendMessage e s message (ToBareJID toJID')
         | Some ErrNotExistingAccount \<Rightarrow>
             Some (writeStanzaError s (elem message) ErrServiceUnavailable [])
         | Some ErrBlockedJID \<Rightarrow>
             Some (writeStanzaError s (elem message) ErrServiceUnavailable [])
         | Some ErrOtherRouting \<Rightarrow> Some s)"

declare sendMessage.simps [code]

text \<open>
  The same loop cut after \<open>n\<close> passes through the label, to look at a run that does
  not end: \<open>Inl\<close> is the stream with which processMessage has returned,
  \<open>Inr\<close> the stream with which the next pass begins.
\<close>

fun sendMessageUpTo :: "nat \<Rightarrow> env \<Rightarrow> stream \<Rightarrow> stanza \<Rightarrow> JID \<Rightarrow> stream + stream" where
  "sendMessageUpTo 0 e s message toJID' = Inr s"
| "sendMessageUpTo (Suc n) e s message toJID' =
     (let err = Route e message;
          s = emit (RouterRoute message) s
      in case err of
           None \<Rightarrow> Inl s
         | Some ErrNotAuthenticated \<Rightarrow>
             if offline s
             then (if (IsChat message \<or> IsGroupChat message) \<and> IsMessageWithBody message
                   then Inl s
                   else Inl (emit (OfflineArchiveMessage message) s))
             else Inl s
         | Some ErrResourceNotFound \<Rightarrow> sendMessageUpTo n e s message (ToBareJID toJID')
         | Some ErrNotExistingAccount \<Rightarrow>
             Inl (writeStanzaError s (elem message) ErrServiceUnavailable [])
         | Some ErrBlockedJID \<Rightarrow>
             Inl (writeStanzaError s (elem message) ErrServiceUnavailable [])
         | Some ErrOtherRouting \<Rightarrow> Inl s)"

definition processMessage :: "env \<Rightarrow> stream \<Rightarrow> stanza \<Rightarrow> stream option" where
  "processMessage e s message =
     (let toJID' = toJID message in
      if \<not> IsLocalDomain e (domain toJID') then Some s
      else sendMessage e s message toJID')"

definition processStanza :: "env \<Rightarrow> stream \<Rightarrow> stanza \<Rightarrow> stream option" where
  "processStanza e s st =
     (let toJID' = toJID st in
      if isBlockedJID e s toJID'
      then Some (writeStanzaError s (elem st) ErrNotAcceptable
                   [NewElementNamespace ''blocked'' blockedErrorNamespace])
      else (case kind st of
              PresenceKind \<Rightarrow> Some (processPresence e s st)
            | IQKind \<Rightarrow> Some (processIQ e s st)
            | MessageKind \<Rightarrow> processMessage e s st))"

definition handleSessionStarted :: "env \<Rightarrow> stream \<Rightarrow> element \<Rightarrow> stream option" where
  "handleSessionStarted e s el =
     (let s = (if ping s then emit PingResetDeadline s else s) in
      case buildStanza e s el True of
        Inl err \<Rightarrow> Some (handleElementError e s el err)
      | Inr st \<Rightarrow>
          if isComponentDomain s (domain (toJID st)) then Some (processComponentStanza s st)
          else processStanza e s st)"

subsection \<open>The actor\<close>

definition handleElement :: "env \<Rightarrow> stream \<Rightarrow> element \<Rightarrow> stream option" where
  "handleElement e s el =
     (let isWebSocketTr = (tr s = WebSocket) in
      if isWebSocketTr \<and> Name el = ''close'' \<and> Namespace el = framedStreamNamespace
      then Some (disconnect e s NoError)
      else (case getState s of
              connecting \<Rightarrow> Some (handleConnecting e s el)
            | connected \<Rightarrow> Some (handleConnected e s el)
            | authenticated \<Rightarrow> Some (handleAuthenticated e s el)
            | authenticating \<Rightarrow> handleAuthenticating e s el
            | sessionStarted \<Rightarrow> handleSessionStarted e s el
            | disconnected \<Rightarrow> Some s))"

text \<open>
  The closures the actor loop runs, one at a time: an element read from the transport
  (readElement), an element to send (SendElement) and a disconnection (Disconnect, the
  connect timeout, a read error). The loop returns once the state is disconnected, so a
  closure posted after that is not run.
\<close>

datatype actor_msg = ReadElement element | SendElement element | Disconnect disconnect_error

definition actorStep :: "env \<Rightarrow> stream \<Rightarrow> actor_msg \<Rightarrow> stream option" where
  "actorStep e s m =
     (if getState s = disconnected then Some s
      else (case m of
              ReadElement el \<Rightarrow> handleElement e s el
            | SendElement el \<Rightarrow> Some (writeElement s el)
            | Disconnect err \<Rightarrow> Some (disconnect e s err)))"

fun actorLoop :: "env \<Rightarrow> stream \<Rightarrow> actor_msg list \<Rightarrow> stream option" where
  "actorLoop e s [] = Some s"
| "actorLoop e s (m # ms) =
     (case actorStep e s m of None \<Rightarrow> None | Some s' \<Rightarrow> actorLoop e s' ms)"

subsection \<open>Observations of a stream\<close>

text \<open>
  What the lifetime properties are stated with: how often each delivery was triggered,
  the part of a stream that only processPresence and proceedStartTLS change, the
  relation between the deliveries and their latches, and what every step of the actor
  keeps.
\<close>

definition deliveries :: "stream \<Rightarrow> nat \<times> nat \<times> nat" where
  "deliveries s =
     (count_list (trace s) RosterDeliverPendingApprovalNotifications,
      count_list (trace s) RosterReceivePresences,
      count_list (trace s) OfflineDeliverOfflineMessages)"

definition frame :: "stream \<Rightarrow> transport_type \<times> bool \<times> (nat \<times> nat \<times> nat) \<times> bool \<times> bool" where
  "frame s = (tr s, securedCtx (ctx s), deliveries s, rosterOnceCtx (ctx s), offlineOnceCtx (ctx s))"

definition latched :: "stream \<Rightarrow> bool" where
  "latched s =
     (deliveries s =
        (if rosterOnceCtx (ctx s) then 1 else 0, if rosterOnceCtx (ctx s) then 1 else 0,
         if offlineOnceCtx (ctx s) then 1 else 0))"

definition evolves :: "stream \<Rightarrow> stream \<Rightarrow> bool" where
  "evolves s s' =
     (tr s' = tr s
      \<and> (securedCtx (ctx s) \<longrightarrow> securedCtx (ctx s'))
      \<and> (rosterOnceCtx (ctx s) \<longrightarrow> rosterOnceCtx (ctx s'))
      \<and> (offlineOnceCtx (ctx s) \<longrightarrow> offlineOnceCtx (ctx s'))
      \<and> (latched s \<longrightarrow> latched s'))"

section \<open>A sample server\<close>

text \<open>
  Concrete values for the closed instances of the theorems below: a router that serves the
  domain localhost, where bob is offline (and has no resource bound), alice has one other
  stream bound with the resource home and carol is blocked; a JID parser that splits a
  string at the first slash and the first at-sign; an authenticator that accepts alice
  at the first element; the SHA-256 digest of the one stream id that is hashed, stream-2;
  a configuration; and the elements of a login.
\<close>

definition parseJID :: "string \<Rightarrow> JID option" where
  "parseJID str =
     (let nd = takeWhile (\<lambda>c. c \<noteq> CHR ''/'') str;
          r = drop 1 (dropWhile (\<lambda>c. c \<noteq> CHR ''/'') str);
          n = (if CHR ''@'' \<in> set nd then takeWhile (\<lambda>c. c \<noteq> CHR ''@'') nd else []);
          d = (if CHR ''@'' \<in> set nd then drop 1 (dropWhile (\<lambda>c. c \<noteq> CHR ''@'') nd) else nd)
      in if d = [] then None else Some \<lparr>node = n, domain = d, resource = r\<rparr>)"

definition digestOfStream2 :: "8 word list" where
  "digestOfStream2 =
     [0x1d, 0xc4, 0xfe, 0xf3, 0x29, 0xd7, 0x83, 0x92, 0x85, 0xd2, 0xfc, 0xda, 0xf8, 0x96, 0xc3, 0x21,
      0x81, 0x78, 0x61, 0x2c, 0x08, 0xa1, 0xe0, 0xc5, 0xa8, 0x39, 0xcb, 0x1c, 0xf2, 0x61, 0x7a, 0xaf]"

definition env0 :: env where
  "env0 = \<lparr>IsLocalDomain = (\<lambda>d. d = ''localhost''),
     DefaultLocalDomain = ''localhost'',
     Route = (\<lambda>st. if node (toJID st) = ''bob''
                     then (if resource (toJID st) = [] then Some ErrNotAuthenticated
                           else Some ErrResourceNotFound)
                     else None),
     IsBlockedJID = (\<lambda>j u. node j = ''carol''),
     StreamsMatchingJID = (\<lambda>j. if node j = ''alice'' then [(''stream-1'', ''home'')] else []),
     stringPrep = (\<lambda>n d r. if d = [] then None else Some \<lparr>node = n, domain = d, resource = r\<rparr>),
     NewJIDString = parseJID,
     NewIQFromElement =
       (\<lambda>el from to. if ID el \<noteq> [] \<and> Type el \<in> {''get'', ''set'', ''result'', ''error''}
                     then Some el else None),
     NewPresenceFromElement = (\<lambda>el from to. Some el),
     NewMessageFromElement = (\<lambda>el from to. Some el),
     Priority = (\<lambda>p. 0),
     ToXML = (\<lambda>el c. ''<'' @ Name el @ ''>''),
     AuthrProcessElement = (\<lambda>a el. None),
     AuthrAuthenticated = (\<lambda>a. processed a \<noteq> []),
     AuthrUsername = (\<lambda>a. ''alice''),
     MatchesIQ = (\<lambda>m iq. False),
     FetchUser = (\<lambda>u. True),
     uuidNew = (\<lambda>n. ''uuid''),
     sha256 = (\<lambda>x. if x = ''stream-2'' then digestOfStream2 else [])\<rparr>"

definition cfg0 :: Config where
  "cfg0 = \<lparr>ConnectTimeout = 5, MaxStanzaSize = 65536, ResourceConflict = Disallow,
     CompressionLevel = DefaultCompression, SASL = [''plain'', ''scram_sha_1''],
     ModulesEnabled = {''offline'', ''registration''}, RosterVersioning = False\<rparr>"

definition streamOpen :: element where
  "streamOpen = Element ''stream:stream''
     [(''xmlns'', ''jabber:client''), (''xmlns:stream'', ''http://etherx.jabber.org/streams''),
      (''to'', ''localhost''), (''version'', ''1.0'')] [] []"

definition starttlsElem :: element where
  "starttlsElem = Element ''starttls'' [(''xmlns'', ''urn:ietf:params:xml:ns:xmpp-tls'')] [] []"

definition authPlain :: element where
  "authPlain = Element ''auth''
     [(''xmlns'', ''urn:ietf:params:xml:ns:xmpp-sasl''), (''mechanism'', ''PLAIN'')]
     ''AGFsaWNlAHMzY3JldA=='' []"

definition bindIQ :: element where
  "bindIQ = Element ''iq'' [(''id'', ''b1''), (''type'', ''set'')] []
     [Element ''bind'' [(''xmlns'', ''urn:ietf:params:xml:ns:xmpp-bind'')] []
        [Element ''resource'' [] ''work'' []]]"

definition sessionIQ :: element where
  "sessionIQ = Element ''iq'' [(''id'', ''s1''), (''type'', ''set'')] []
     [Element ''session'' [(''xmlns'', ''urn:ietf:params:xml:ns:xmpp-session'')] [] []]"

definition presenceElem :: element where
  "presenceElem = Element ''presence'' [] [] []"

definition streamOpenEmptyTo :: element where
  "streamOpenEmptyTo = Element ''stream:stream''
     [(''xmlns'', ''jabber:client''), (''xmlns:stream'', ''http://etherx.jabber.org/streams''),
      (''to'', []), (''version'', ''1.0'')] [] []"

definition streamOpenForeign :: element where
  "streamOpenForeign = Element ''stream:stream''
     [(''xmlns'', ''jabber:client''), (''xmlns:stream'', ''http://etherx.jabber.org/streams''),
      (''to'', ''example.org''), (''version'', ''1.0'')] [] []"

definition legacyAuthIQ :: element where
  "legacyAuthIQ = Element ''iq'' [(''id'', ''a1''), (''type'', ''get'')] []
     [Element ''query'' [(''xmlns'', ''jabber:iq:auth'')] [] []]"

definition socketStream :: stream where
  "socketStream = New env0 ''stream-2'' Socket cfg0"

definition connectedStream :: stream where
  "connectedStream = handleConnecting env0 socketStream streamOpen"

definition authenticatedWith :: "Config \<Rightarrow> stream" where
  "authenticatedWith c =
     handleConnecting env0
       (handleConnected env0
          (handleConnecting env0
             (handleConnected env0
                (handleConnecting env0 (New env0 ''stream-2'' Socket c) streamOpen)
                starttlsElem)
             streamOpen)
          authPlain)
       streamOpen"

definition sessionStream :: stream where
  "sessionStream =
     handleAuthenticated env0 (handleAuthenticated env0 (authenticatedWith cfg0) bindIQ) sessionIQ"

definition chatMessage :: element where
  "chatMessage = Element ''message'' [(''type'', ''chat''), (''to'', ''bob@localhost'')] []
     [Element ''body'' [] ''hi'' []]"

definition phoneMessage :: element where
  "phoneMessage = Element ''message'' [(''type'', ''chat''), (''to'', ''bob@localhost/phone'')] []
     [Element ''body'' [] ''hi'' []]"

definition messageStanza :: "element \<Rightarrow> string \<Rightarrow> stanza" where
  "messageStanza el r =
     \<lparr>kind = MessageKind, elem = el,
      fromJID = \<lparr>node = ''alice'', domain = ''localhost'', resource = ''work''\<rparr>,
      toJID = \<lparr>node = ''bob'', domain = ''localhost'', resource = r\<rparr>\<rparr>"

definition serverPing :: element where
  "serverPing = Element ''iq'' [(''id'', ''p1''), (''type'', ''get''), (''to'', ''localhost'')] []
     [Element ''ping'' [(''xmlns'', ''urn:xmpp:ping'')] [] []]"

definition serverPingStanza :: stanza where
  "serverPingStanza =
     \<lparr>kind = IQKind, elem = serverPing,
      fromJID = \<lparr>node = ''alice'', domain = ''localhost'', resource = ''work''\<rparr>,
      toJID = \<lparr>node = [], domain = ''localhost'', resource = []\<rparr>\<rparr>"

definition blockingAll :: env where
  "blockingAll = env0\<lparr>IsBlockedJID := (\<lambda>j u. True)\<rparr>"

definition bindHome :: element where
  "bindHome = Element ''iq'' [(''id'', ''b2''), (''type'', ''set'')] []
     [Element ''bind'' [(''xmlns'', ''urn:ietf:params:xml:ns:xmpp-bind'')] []
        [Element ''resource'' [] ''home'' []]]"

definition bindHomeStanza :: stanza where
  "bindHomeStanza =
     \<lparr>kind = IQKind, elem = bindHome,
      fromJID = \<lparr>node = ''alice'', domain = ''localhost'', resource = []\<rparr>,
      toJID = \<lparr>node = ''alice'', domain = ''localhost'', resource = []\<rparr>\<rparr>"

definition cfgOverride :: Config where
  "cfgOverride = cfg0\<lparr>ResourceConflict := Override\<rparr>"

definition login :: "actor_msg list" where
  "login = map ReadElement
     [streamOpen, starttlsElem, streamOpen, authPlain, streamOpen, bindIQ, sessionIQ]"

definition presenceStanza :: stanza where
  "presenceStanza =
     \<lparr>kind = PresenceKind, elem = presenceElem,
      fromJID = \<lparr>node = ''alice'', domain = ''localhost'', resource = ''work''\<rparr>,
      toJID = \<lparr>node = ''alice'', domain = ''localhost'', resource = []\<rparr>\<rparr>"

definition twicePresent :: stream where
  "twicePresent =
     processPresence env0 (processPresence env0 sessionStream presenceStanza) presenceStanza"

definition webSocketOpen :: element where
  "webSocketOpen = Element ''open''
     [(''xmlns'', ''urn:ietf:params:xml:ns:xmpp-framing''), (''to'', ''localhost''),
      (''version'', ''1.0'')] [] []"

definition webSocketStream :: stream where
  "webSocketStream = New env0 ''stream-3'' WebSocket cfg0"

section \<open>Properties\<close>

subsection \<open>Auxiliary facts\<close>

lemma foldl_AppendElements:
  "foldl (\<lambda>mechanisms athr. AppendElements mechanisms [f athr]) (Element n as t cs) xs
   = Element n as t (cs @ map f xs)"
  by (induction xs arbitrary: cs) simp_all

lemma unauthenticatedFeatures_eq:
  "unauthenticatedFeatures s =
     (if tr s = Socket \<and> \<not> IsSecured s
      then [Element ''starttls'' [(''xmlns'', tlsNamespace)] [] [Element ''required'' [] [] []]]
      else [])
     @ (if (tr s \<noteq> Socket \<or> IsSecured s) \<and> authrs s \<noteq> []
        then [Element ''mechanisms'' [(''xmlns'', saslNamespace)] []
                (map (\<lambda>a. Element ''mechanism'' [] (Mechanism (mech a)) []) (authrs s))]
        else [])
     @ (if ''registration'' \<in> ModulesEnabled (cfg s) \<and> IsSecured s
        then [Element ''register'' [(''xmlns'', ''http://jabber.org/features/iq-register'')] [] []]
        else [])"
  by (auto simp add: unauthenticatedFeatures_def Let_def foldl_AppendElements SetNamespace_def
      NewElementName_def NewElementNamespace_def AppendElement_def tlsNamespace_def)

lemma initializeAuthenticators_mechanisms:
  "map (\<lambda>a. Mechanism (mech a)) (initializeAuthenticators sasl as) =
     map (\<lambda>a. Mechanism (mech a)) as @
     concat (map (\<lambda>a. if a = ''plain'' then [''PLAIN'']
                        else if a = ''digest_md5'' then [''DIGEST-MD5'']
                        else if a = ''scram_sha_1'' then [''SCRAM-SHA-1'', ''SCRAM-SHA-1-PLUS'']
                        else if a = ''scram_sha_256'' then [''SCRAM-SHA-256'', ''SCRAM-SHA-256-PLUS'']
                        else []) sasl)"
proof (induction sasl arbitrary: as)
  case Nil
  show ?case by simp
next
  case (Cons a sasl)
  show ?case
    unfolding initializeAuthenticators.simps Cons.IH
    by (simp add: appendAuthenticators_def NewAuthr_def)
qed

lemma getState_disconnectClosingStream [simp]:
  "getState (disconnectClosingStream e s b) = disconnected"
  by (simp add: disconnectClosingStream_def Let_def emit_def getState_def setState_def)

lemma getState_disconnectWithStreamError [simp]:
  "getState (disconnectWithStreamError e s err) = disconnected"
  by (simp add: disconnectWithStreamError_def Let_def)

lemma trace_disconnectClosingStream:
  "set (trace s) \<subseteq> set (trace (disconnectClosingStream e s b))"
  by (auto simp add: disconnectClosingStream_def updateLogoutInfo_def Let_def emit_def setState_def
      Presence_def split: option.splits transport_type.splits)

lemma trace_disconnectWithStreamError:
  "WriteStreamError err \<in> set (trace (disconnectWithStreamError e s err))"
proof -
  have "WriteStreamError err \<in>
      set (trace (emit (WriteStreamError err) (if getState s = connecting then openStream e s else s)))"
    by (simp add: emit_def)
  then show ?thesis
    unfolding disconnectWithStreamError_def Let_def
    using trace_disconnectClosingStream by blast
qed

lemma validateStreamElement_host_unknown:
  assumes "Name el = (case tr s of Socket \<Rightarrow> ''stream:stream'' | WebSocket \<Rightarrow> ''open'')"
    and "Namespace el =
      (case tr s of Socket \<Rightarrow> jabberClientNamespace | WebSocket \<Rightarrow> framedStreamNamespace)"
    and "tr s = Socket \<Longrightarrow> Get (Attributes el) ''xmlns:stream'' = streamNamespace"
    and "To el \<noteq> []" and "\<not> IsLocalDomain e (To el)"
  shows "validateStreamElement e s el = Some ErrHostUnknown"
  using assms by (cases "tr s") (simp_all add: validateStreamElement_def Let_def)

lemma sendMessage_not_authenticated:
  assumes "Route e m = Some ErrNotAuthenticated" and "offline s"
  shows "sendMessage e s m j =
    Some (if (IsChat m \<or> IsGroupChat m) \<and> IsMessageWithBody m
          then s\<lparr>trace := trace s @ [RouterRoute m]\<rparr>
          else s\<lparr>trace := trace s @ [RouterRoute m, OfflineArchiveMessage m]\<rparr>)"
  using assms by (subst sendMessage.simps) (simp add: Let_def emit_def)

lemma sendMessage_returns:
  assumes ret: "sendMessage e0 s0 m0 j0 = Some y0"
  shows "Route e0 m0 \<noteq> Some ErrResourceNotFound"
proof (rule sendMessage.raw_induct
    [where P = "\<lambda>e s m j y. Route e m \<noteq> Some ErrResourceNotFound", OF _ ret])
  fix f :: "env \<Rightarrow> stream \<Rightarrow> stanza \<Rightarrow> JID \<Rightarrow> stream option"
  fix e s m j y
  assume IH: "\<And>e s m j y. f e s m j = Some y \<Longrightarrow> Route e m \<noteq> Some ErrResourceNotFound"
  assume body: "(let err = Route e m; s = emit (RouterRoute m) s
      in case err of
           None \<Rightarrow> Some s
         | Some ErrNotAuthenticated \<Rightarrow>
             if offline s
             then (if (IsChat m \<or> IsGroupChat m) \<and> IsMessageWithBody m
                   then Some s
                   else Some (emit (OfflineArchiveMessage m) s))
             else Some s
         | Some ErrResourceNotFound \<Rightarrow> f e s m (ToBareJID j)
         | Some ErrNotExistingAccount \<Rightarrow>
             Some (writeStanzaError s (elem m) ErrServiceUnavailable [])
         | Some ErrBlockedJID \<Rightarrow>
             Some (writeStanzaError s (elem m) ErrServiceUnavailable [])
         | Some ErrOtherRouting \<Rightarrow> Some s) = Some y"
  show "Route e m \<noteq> Some ErrResourceNotFound"
  proof
    assume r: "Route e m = Some ErrResourceNotFound"
    with body have "f e (emit (RouterRoute m) s) m (ToBareJID j) = Some y"
      by (simp add: Let_def)
    then have "Route e m \<noteq> Some ErrResourceNotFound" by (rule IH)
    with r show False by simp
  qed
qed

text \<open>
  The loop cut after some number of passes returns exactly what sendMessage returns.
\<close>

lemma sendMessageUpTo_returns:
  "sendMessageUpTo n e s m j = Inl s' \<Longrightarrow> sendMessage e s m j = Some s'"
proof (induction n arbitrary: s j)
  case 0
  then show ?case by simp
next
  case (Suc n)
  show ?case
  proof (cases "Route e m = Some ErrResourceNotFound")
    case True
    with Suc.prems have "sendMessageUpTo n e (emit (RouterRoute m) s) m (ToBareJID j) = Inl s'"
      by (simp add: Let_def)
    from Suc.IH [OF this] True show ?thesis
      by (subst sendMessage.simps) (simp add: Let_def)
  next
    case False
    with Suc.prems show ?thesis
      by (subst sendMessage.simps)
        (auto simp add: Let_def split: option.splits router_error.splits if_splits)
  qed
qed

lemma sendMessageUpTo_resource_not_found:
  "Route e m = Some ErrResourceNotFound \<Longrightarrow>
     sendMessageUpTo n e s m j = Inr (s\<lparr>trace := trace s @ replicate n (RouterRoute m)\<rparr>)"
proof (induction n arbitrary: s j)
  case 0
  show ?case by simp
next
  case (Suc n)
  from Suc.IH [OF Suc.prems, of "emit (RouterRoute m) s" "ToBareJID j"] Suc.prems
  show ?case
    by (simp add: Let_def emit_def)
qed

lemma sendMessage_bounded:
  assumes ret: "sendMessage e0 s0 m0 j0 = Some y0"
  shows "\<exists>n. sendMessageUpTo n e0 s0 m0 j0 = Inl y0"
proof (rule sendMessage.raw_induct
    [where P = "\<lambda>e s m j y. \<exists>n. sendMessageUpTo n e s m j = Inl y", OF _ ret])
  fix f :: "env \<Rightarrow> stream \<Rightarrow> stanza \<Rightarrow> JID \<Rightarrow> stream option"
  fix e s m j y
  assume IH: "\<And>e s m j y. f e s m j = Some y \<Longrightarrow> \<exists>n. sendMessageUpTo n e s m j = Inl y"
  assume body: "(let err = Route e m; s = emit (RouterRoute m) s
      in case err of
           None \<Rightarrow> Some s
         | Some ErrNotAuthenticated \<Rightarrow>
             if offline s
             then (if (IsChat m \<or> IsGroupChat m) \<and> IsMessageWithBody m
                   then Some s
                   else Some (emit (OfflineArchiveMessage m) s))
             else Some s
         | Some ErrResourceNotFound \<Rightarrow> f e s m (ToBareJID j)
         | Some ErrNotExistingAccount \<Rightarrow>
             Some (writeStanzaError s (elem m) ErrServiceUnavailable [])
         | Some ErrBlockedJID \<Rightarrow>
             Some (writeStanzaError s (elem m) ErrServiceUnavailable [])
         | Some ErrOtherRouting \<Rightarrow> Some s) = Some y"
  show "\<exists>n. sendMessageUpTo n e s m j = Inl y"
  proof (cases "Route e m = Some ErrResourceNotFound")
    case True
    with body have "f e (emit (RouterRoute m) s) m (ToBareJID j) = Some y"
      by (simp add: Let_def)
    from IH [OF this] obtain n where
      "sendMessageUpTo n e (emit (RouterRoute m) s) m (ToBareJID j) = Inl y" ..
    with True have "sendMessageUpTo (Suc n) e s m j = Inl y"
      by (simp add: Let_def)
    then show ?thesis ..
  next
    case False
    with body have "sendMessageUpTo (Suc 0) e s m j = Inl y"
      by (auto simp add: Let_def split: option.splits router_error.splits if_splits)
    then show ?thesis ..
  qed
qed

lemma processPresence_no_not_acceptable:
  "\<exists>evs. trace (processPresence e s p) = trace s @ evs
     \<and> (\<forall>el app. WriteStanzaError el ErrNotAcceptable app \<notin> set evs)"
  by (simp add: processPresence_def Let_def emit_def Presence_def)

lemma processIQ_no_not_acceptable:
  "\<exists>evs. trace (processIQ e s iq) = trace s @ evs
     \<and> (\<forall>el app. WriteStanzaError el ErrNotAcceptable app \<notin> set evs)"
  by (simp add: processIQ_def Let_def emit_def writeStanzaError_def
      split: option.split router_error.split)

lemma sendMessage_no_not_acceptable:
  assumes ret: "sendMessage e0 s0 m0 j0 = Some y0"
  shows "\<exists>evs. trace y0 = trace s0 @ evs
     \<and> (\<forall>el app. WriteStanzaError el ErrNotAcceptable app \<notin> set evs)"
proof (rule sendMessage.raw_induct
    [where P = "\<lambda>e s m j y. \<exists>evs. trace y = trace s @ evs
       \<and> (\<forall>el app. WriteStanzaError el ErrNotAcceptable app \<notin> set evs)", OF _ ret])
  fix f :: "env \<Rightarrow> stream \<Rightarrow> stanza \<Rightarrow> JID \<Rightarrow> stream option"
  fix e s m j y
  assume IH: "\<And>e s m j y. f e s m j = Some y \<Longrightarrow>
    \<exists>evs. trace y = trace s @ evs
      \<and> (\<forall>el app. WriteStanzaError el ErrNotAcceptable app \<notin> set evs)"
  assume body: "(let err = Route e m; s = emit (RouterRoute m) s
      in case err of
           None \<Rightarrow> Some s
         | Some ErrNotAuthenticated \<Rightarrow>
             if offline s
             then (if (IsChat m \<or> IsGroupChat m) \<and> IsMessageWithBody m
                   then Some s
                   else Some (emit (OfflineArchiveMessage m) s))
             else Some s
         | Some ErrResourceNotFound \<Rightarrow> f e s m (ToBareJID j)
         | Some ErrNotExistingAccount \<Rightarrow>
             Some (writeStanzaError s (elem m) ErrServiceUnavailable [])
         | Some ErrBlockedJID \<Rightarrow>
             Some (writeStanzaError s (elem m) ErrServiceUnavailable [])
         | Some ErrOtherRouting \<Rightarrow> Some s) = Some y"
  show "\<exists>evs. trace y = trace s @ evs
      \<and> (\<forall>el app. WriteStanzaError el ErrNotAcceptable app \<notin> set evs)"
  proof (cases "Route e m = Some ErrResourceNotFound")
    case True
    with body have "f e (emit (RouterRoute m) s) m (ToBareJID j) = Some y"
      by (simp add: Let_def)
    from IH [OF this] obtain evs where
      "trace y = trace (emit (RouterRoute m) s) @ evs"
      "\<forall>el app. WriteStanzaError el ErrNotAcceptable app \<notin> set evs"
      by blast
    then have "trace y = trace s @ (RouterRoute m # evs)
      \<and> (\<forall>el app. WriteStanzaError el ErrNotAcceptable app \<notin> set (RouterRoute m # evs))"
      by (simp add: emit_def)
    then show ?thesis by blast
  next
    case False
    with body show ?thesis
      by (auto simp add: Let_def emit_def writeStanzaError_def
          split: option.splits router_error.splits if_splits)
  qed
qed

lemma foldl_collision_acc:
  "acc \<noteq> None \<Longrightarrow>
     foldl (\<lambda>stm s'. if snd s' = r then Some s' else stm) acc stms \<noteq> None"
  by (induction stms arbitrary: acc) simp_all

lemma foldl_collision:
  "(other, r) \<in> set stms \<Longrightarrow>
     foldl (\<lambda>stm s'. if snd s' = r then Some s' else stm) acc stms \<noteq> None"
proof (induction stms arbitrary: acc)
  case Nil
  then show ?case by simp
next
  case (Cons p stms)
  show ?case
  proof (cases "snd p = r")
    case True
    then show ?thesis by (simp add: foldl_collision_acc)
  next
    case False
    with Cons.prems have "(other, r) \<in> set stms" by auto
    from Cons.IH [OF this] False show ?thesis by simp
  qed
qed

lemma buildStanza_trace [simp]:
  "buildStanza e (s\<lparr>trace := t\<rparr>) el v = buildStanza e s el v"
  by (simp add: buildStanza_def extractAddresses_def isValidFrom_def JID'_def
      cong: option.case_cong sum.case_cong if_cong)

lemma bindResource_disallow:
  assumes "ChildNamespace (Elements (elem iq)) ''bind'' bindNamespace = Some bind"
    and "Child (Elements bind) ''resource'' = Some resourceElem"
    and "(other, Text resourceElem) \<in> set (StreamsMatchingJID e (ToBareJID (JID' s)))"
    and "ResourceConflict (cfg s) = Disallow"
  shows "bindResource e s iq = s\<lparr>trace := trace s @ [WriteStanzaError (elem iq) ErrConflict []]\<rparr>"
proof -
  from foldl_collision [OF assms(3)] obtain p where
    "foldl (\<lambda>stm s'. if snd s' = Text resourceElem then Some s' else stm) None
       (StreamsMatchingJID e (ToBareJID (JID' s))) = Some p"
    by blast
  then show ?thesis
    using assms(1,2,4) by (simp add: bindResource_def Let_def writeStanzaError_def emit_def)
qed

lemma bindResource_override:
  assumes "ChildNamespace (Elements (elem iq)) ''bind'' bindNamespace = Some bind"
    and "(other, case Child (Elements bind) ''resource'' of
                   Some resourceElem \<Rightarrow> Text resourceElem
                 | None \<Rightarrow> uuidNew e (uuids s))
           \<in> set (StreamsMatchingJID e (ToBareJID (JID' s)))"
    and "ResourceConflict (cfg s) = Override"
    and "NewJID e (Username s) (Domain' s) (EncodeToString (sha256 e (streamID s))) False
           = Some userJID"
  shows "Resource (bindResource e s iq) = EncodeToString (sha256 e (streamID s))
    \<and> JID' (bindResource e s iq) = userJID
    \<and> state (bindResource e s iq) = state s
    \<and> trace (bindResource e s iq) = trace s @
        [WriteElement
           (Element ''iq''
              [(''id'', ID (elem iq)), (''type'', ''result''), (''xmlns'', Namespace (elem iq))] []
              [Element ''bind'' [(''xmlns'', bindNamespace)] []
                 [Element ''jid'' []
                    (Username s @ ''@'' @ Domain' s @ ''/''
                       @ EncodeToString (sha256 e (streamID s))) []]]),
         RouterAuthenticateStream]"
proof (cases "Child (Elements bind) ''resource''")
  case None
  with assms(2) have "(other, uuidNew e (uuids s))
      \<in> set (StreamsMatchingJID e (ToBareJID (JID' s)))" by simp
  from foldl_collision [OF this] obtain p where
    "foldl (\<lambda>stm s'. if snd s' = uuidNew e (uuids s) then Some s' else stm) None
       (StreamsMatchingJID e (ToBareJID (JID' s))) = Some p"
    by blast
  then show ?thesis
    using assms(1,3,4) None
    by (simp add: bindResource_def Let_def writeElement_def emit_def JID'_def Username_def
        Domain'_def Resource_def NewIQType_def NewElementName_def NewElementNamespace_def
        SetNamespace_def AppendElement_def)
next
  case (Some resourceElem)
  with assms(2) have "(other, Text resourceElem)
      \<in> set (StreamsMatchingJID e (ToBareJID (JID' s)))" by simp
  from foldl_collision [OF this] obtain p where
    "foldl (\<lambda>stm s'. if snd s' = Text resourceElem then Some s' else stm) None
       (StreamsMatchingJID e (ToBareJID (JID' s))) = Some p"
    by blast
  then show ?thesis
    using assms(1,3,4) Some
    by (simp add: bindResource_def Let_def writeElement_def emit_def JID'_def Username_def
        Domain'_def Resource_def NewIQType_def NewElementName_def NewElementNamespace_def
        SetNamespace_def AppendElement_def)
qed

lemmas frame_defs = frame_def deliveries_def

lemma frame_emit [simp]:
  "ev \<noteq> RosterDeliverPendingApprovalNotifications \<Longrightarrow> ev \<noteq> RosterReceivePresences \<Longrightarrow>
   ev \<noteq> OfflineDeliverOfflineMessages \<Longrightarrow> frame (emit ev s) = frame s"
  by (simp add: frame_defs emit_def)

lemma frame_update [simp]:
  "frame (s\<lparr>connectTm := b\<rparr>) = frame s"
  "frame (s\<lparr>state := st\<rparr>) = frame s"
  "frame (s\<lparr>authrs := as\<rparr>) = frame s"
  "frame (s\<lparr>activeAuthr := a\<rparr>) = frame s"
  "frame (s\<lparr>iqHandlers := hs\<rparr>) = frame s"
  "frame (s\<lparr>roster := b\<rparr>) = frame s"
  "frame (s\<lparr>discoInfo := b\<rparr>) = frame s"
  "frame (s\<lparr>register := b\<rparr>) = frame s"
  "frame (s\<lparr>ping := b\<rparr>) = frame s"
  "frame (s\<lparr>blockCmd := b\<rparr>) = frame s"
  "frame (s\<lparr>offline := b\<rparr>) = frame s"
  "frame (s\<lparr>uuids := n\<rparr>) = frame s"
  by (simp_all add: frame_defs)

lemma frame_update_ctx [simp]:
  "securedCtx c = securedCtx (ctx s) \<Longrightarrow> rosterOnceCtx c = rosterOnceCtx (ctx s) \<Longrightarrow>
   offlineOnceCtx c = offlineOnceCtx (ctx s) \<Longrightarrow> frame (s\<lparr>ctx := c\<rparr>) = frame s"
  by (simp add: frame_defs)

lemma ctx_emit [simp]: "ctx (emit ev s) = ctx s"
  by (simp add: emit_def)

lemma frame_setState [simp]: "frame (setState s st) = frame s"
  by (simp add: setState_def)

lemma frame_writeElement [simp]: "frame (writeElement s el) = frame s"
  by (simp add: writeElement_def)

lemma frame_writeStanzaError [simp]: "frame (writeStanzaError s el err app) = frame s"
  by (simp add: writeStanzaError_def)

lemma frame_restart [simp]: "frame (restart s) = frame s"
  by (simp add: restart_def)

lemma frame_openStream [simp]: "frame (openStream e s) = frame s"
  by (simp add: openStream_def Let_def split: transport_type.split prod.split)

lemma frame_updateLogoutInfo [simp]: "frame (updateLogoutInfo e s) = frame s"
  by (simp add: updateLogoutInfo_def split: option.split)

lemma frame_disconnectClosingStream [simp]: "frame (disconnectClosingStream e s b) = frame s"
  by (simp add: disconnectClosingStream_def Let_def split: option.split transport_type.split)

lemma frame_disconnectWithStreamError [simp]: "frame (disconnectWithStreamError e s err) = frame s"
  by (simp add: disconnectWithStreamError_def Let_def)

lemma frame_disconnect [simp]: "frame (disconnect e s err) = frame s"
  by (simp add: disconnect_def split: disconnect_error.split)

lemma frame_handleElementError [simp]: "frame (handleElementError e s el err) = frame s"
  by (simp add: handleElementError_def split: build_error.split)

lemma frame_compress [simp]: "frame (compress e s el) = frame s"
  by (simp add: compress_def Let_def)

lemma frame_resetActiveAuthr [simp]: "frame (resetActiveAuthr s) = frame s"
  by (simp add: resetActiveAuthr_def split: option.split)

lemma frame_failAuthentication [simp]: "frame (failAuthentication s el) = frame s"
  by (simp add: failAuthentication_def Let_def)

lemma frame_finishAuthentication [simp]: "frame (finishAuthentication e s u) = frame s"
  by (simp add: finishAuthentication_def Let_def split: option.split)

lemma frame_continueAuthentication [simp]:
  "frame (fst (continueAuthentication e s el i)) = frame s"
  by (simp add: continueAuthentication_def Let_def split: option.split auth_error.split)

lemma frame_startAuthentication [simp]: "frame (startAuthentication e s el) = frame s"
proof (cases "findMechanism (authrs s) (Get (Attributes el) ''mechanism'') 0")
  case None
  then show ?thesis by (simp add: startAuthentication_def)
next
  case (Some i)
  obtain s1 err where c: "continueAuthentication e s el i = (s1, err)"
    by (cases "continueAuthentication e s el i")
  then have "frame s1 = frame s"
    using frame_continueAuthentication [of e s el i] by simp
  then show ?thesis
    using Some c by (simp add: startAuthentication_def split: option.split)
qed

lemma frame_bindResource [simp]: "frame (bindResource e s iq) = frame s"
  by (simp add: bindResource_def Let_def
      split: option.split resource_conflict_policy.split prod.split sum.split)

lemma frame_initializeModules [simp]: "frame (initializeModules s) = frame s"
  by (simp add: initializeModules_def Let_def)

lemma frame_startSession [simp]: "frame (startSession s iq) = frame s"
  by (simp add: startSession_def Let_def split: option.split)

lemma frame_handleConnecting [simp]: "frame (handleConnecting e s el) = frame s"
  by (simp add: handleConnecting_def Let_def split: option.split)

lemma frame_handleAuthenticating:
  "handleAuthenticating e s el = Some s' \<Longrightarrow> frame s' = frame s"
proof -
  assume h: "handleAuthenticating e s el = Some s'"
  show ?thesis
  proof (cases "Namespace el \<noteq> saslNamespace")
    case True
    with h show ?thesis by (auto simp add: handleAuthenticating_def)
  next
    case False
    with h obtain i where i: "activeAuthr s = Some i" "i < length (authrs s)"
      by (auto simp add: handleAuthenticating_def split: option.splits if_splits)
    obtain s1 err where c: "continueAuthentication e s el i = (s1, err)"
      by (cases "continueAuthentication e s el i")
    then have "frame s1 = frame s"
      using frame_continueAuthentication [of e s el i] by simp
    with h False i c show ?thesis
      by (auto simp add: handleAuthenticating_def split: if_splits)
  qed
qed

lemma frame_handleAuthenticated [simp]: "frame (handleAuthenticated e s el) = frame s"
  by (simp add: handleAuthenticated_def split: sum.split)

lemma frame_processIQ [simp]: "frame (processIQ e s iq) = frame s"
  by (simp add: processIQ_def Let_def split: option.split router_error.split)

lemma frame_sendMessage:
  assumes ret: "sendMessage e0 s0 m0 j0 = Some y0"
  shows "frame y0 = frame s0"
proof (rule sendMessage.raw_induct [where P = "\<lambda>e s m j y. frame y = frame s", OF _ ret])
  fix f :: "env \<Rightarrow> stream \<Rightarrow> stanza \<Rightarrow> JID \<Rightarrow> stream option"
  fix e s m j y
  assume IH: "\<And>e s m j y. f e s m j = Some y \<Longrightarrow> frame y = frame s"
  assume body: "(let err = Route e m; s = emit (RouterRoute m) s
      in case err of
           None \<Rightarrow> Some s
         | Some ErrNotAuthenticated \<Rightarrow>
             if offline s
             then (if (IsChat m \<or> IsGroupChat m) \<and> IsMessageWithBody m
                   then Some s
                   else Some (emit (OfflineArchiveMessage m) s))
             else Some s
         | Some ErrResourceNotFound \<Rightarrow> f e s m (ToBareJID j)
         | Some ErrNotExistingAccount \<Rightarrow>
             Some (writeStanzaError s (elem m) ErrServiceUnavailable [])
         | Some ErrBlockedJID \<Rightarrow>
             Some (writeStanzaError s (elem m) ErrServiceUnavailable [])
         | Some ErrOtherRouting \<Rightarrow> Some s) = Some y"
  show "frame y = frame s"
  proof (cases "Route e m = Some ErrResourceNotFound")
    case True
    with body have "f e (emit (RouterRoute m) s) m (ToBareJID j) = Some y"
      by (simp add: Let_def)
    from IH [OF this] show ?thesis by simp
  next
    case False
    with body show ?thesis
      by (auto simp add: Let_def split: option.splits router_error.splits if_splits)
  qed
qed

lemma frame_processMessage:
  "processMessage e s m = Some s' \<Longrightarrow> frame s' = frame s"
  by (auto simp add: processMessage_def Let_def split: if_splits dest: frame_sendMessage)

lemma evolves_refl [simp]: "evolves s s"
  by (simp add: evolves_def)

lemma evolves_trans: "evolves s s1 \<Longrightarrow> evolves s1 s2 \<Longrightarrow> evolves s s2"
  by (simp add: evolves_def)

lemma evolves_frame: "frame s' = frame s \<Longrightarrow> evolves s s'"
  by (simp add: evolves_def latched_def frame_def)

lemma evolves_proceedStartTLS: "evolves s (proceedStartTLS e s)"
proof (cases "IsSecured s")
  case True
  then show ?thesis by (simp add: proceedStartTLS_def evolves_frame)
next
  case False
  have "frame (proceedStartTLS e s) = (tr s, True, deliveries s, rosterOnceCtx (ctx s), offlineOnceCtx (ctx s))"
    using False
    by (simp add: proceedStartTLS_def Let_def frame_defs restart_def setState_def emit_def
        writeElement_def)
  then show ?thesis
    by (simp add: evolves_def latched_def frame_def)
qed

lemma evolves_handleConnected: "evolves s (handleConnected e s el)"
  by (simp add: handleConnected_def evolves_frame evolves_proceedStartTLS split: sum.split)

lemma evolves_processPresence: "evolves s (processPresence e s p)"
  by (simp add: processPresence_def Let_def evolves_def latched_def deliveries_def emit_def
      Presence_def)

lemma evolves_processStanza:
  "processStanza e s st = Some s' \<Longrightarrow> evolves s s'"
  by (auto simp add: processStanza_def Let_def evolves_frame evolves_processPresence
      split: if_splits stanza_kind.splits dest: frame_processMessage)

lemma evolves_handleSessionStarted:
  "handleSessionStarted e s el = Some s' \<Longrightarrow> evolves s s'"
proof -
  assume h: "handleSessionStarted e s el = Some s'"
  let ?s1 = "if ping s then emit PingResetDeadline s else s"
  have 1: "evolves s ?s1" by (simp add: evolves_frame)
  from h have "evolves ?s1 s'"
    by (auto simp add: handleSessionStarted_def Let_def isComponentDomain_def evolves_frame
        split: sum.splits dest: evolves_processStanza)
  with 1 show ?thesis by (rule evolves_trans)
qed

lemma evolves_handleElement:
  "handleElement e s el = Some s' \<Longrightarrow> evolves s s'"
  by (auto simp add: handleElement_def Let_def getState_def evolves_frame evolves_handleConnected
      split: if_splits stream_state.splits
      dest: evolves_handleSessionStarted frame_handleAuthenticating)

lemma evolves_actorStep:
  "actorStep e s m = Some s' \<Longrightarrow> evolves s s'"
  by (auto simp add: actorStep_def evolves_frame split: if_splits actor_msg.splits
      dest: evolves_handleElement)

lemma evolves_actorLoop:
  "actorLoop e s ms = Some s' \<Longrightarrow> evolves s s'"
proof (induction ms arbitrary: s)
  case Nil
  then show ?case by simp
next
  case (Cons m ms)
  from Cons.prems obtain s1 where 1: "actorStep e s m = Some s1" and 2: "actorLoop e s1 ms = Some s'"
    by (auto split: option.splits)
  from evolves_actorStep [OF 1] Cons.IH [OF 2] show ?case by (rule evolves_trans)
qed

lemma latched_New: "latched (New e ident t c)"
  by (simp add: New_def Let_def NewJID_def NewContext_def latched_def deliveries_def)

lemma authenticatedFeatures_names:
  "Name ` set (authenticatedFeatures s) \<subseteq> {''compression'', ''bind'', ''session'', ''ver''}"
  by (auto simp add: authenticatedFeatures_def Let_def NewElementNamespace_def NewElementName_def
      SetNamespace_def AppendElement_def)

lemma validateStreamElement_tr:
  "tr s' = tr s \<Longrightarrow> validateStreamElement e s' el = validateStreamElement e s el"
  by (simp add: validateStreamElement_def)

lemma handleConnecting_features:
  assumes "validateStreamElement e s el = None" and "\<not> IsAuthenticated s"
  shows "getState (handleConnecting e s el) = connected
    \<and> last (trace (handleConnecting e s el)) =
        WriteElement
          (Element ''stream:features''
             [(''xmlns:stream'', streamNamespace), (''version'', ''1.0'')] []
             (unauthenticatedFeatures s))"
proof -
  let ?s1 = "if connectTm s then (emit ConnectTmStop s)\<lparr>connectTm := False\<rparr> else s"
  let ?s2 = "openStream e (?s1\<lparr>ctx := (ctx ?s1)\<lparr>domainCtx := To el\<rparr>\<rparr>)"
  have "tr ?s1 = tr s" by (simp add: emit_def)
  then have v: "validateStreamElement e ?s1 el = None"
    using assms(1) validateStreamElement_tr [of ?s1 s e el] by simp
  have props: "tr ?s2 = tr s" "IsSecured ?s2 = IsSecured s" "\<not> IsAuthenticated ?s2"
    "authrs ?s2 = authrs s" "cfg ?s2 = cfg s"
    using assms(2)
    by (simp_all add: openStream_def Let_def emit_def IsSecured_def IsAuthenticated_def
        split: transport_type.split)
  have hc: "handleConnecting e s el =
      writeElement (setState ?s2 connected)
        (AppendElements
           (SetAttribute (SetAttribute (NewElementName ''stream:features'') ''xmlns:stream''
              streamNamespace) ''version'' ''1.0'')
           (unauthenticatedFeatures ?s2))"
    using v props(3) by (simp add: handleConnecting_def Let_def)
  have uf: "unauthenticatedFeatures ?s2 = unauthenticatedFeatures s"
    unfolding unauthenticatedFeatures_eq props by (rule refl)
  show ?thesis
    unfolding hc uf
    by (simp add: writeElement_def emit_def setState_def getState_def NewElementName_def)
qed

lemma handleConnecting_New_features:
  assumes "t \<noteq> Socket" and "validateStreamElement e (New e ident t c) el = None"
  shows "getState (handleConnecting e (New e ident t c) el) = connected
    \<and> last (trace (handleConnecting e (New e ident t c) el)) =
        WriteElement
          (Element ''stream:features''
             [(''xmlns:stream'', streamNamespace), (''version'', ''1.0'')] []
             ((if initializeAuthenticators (SASL c) [] \<noteq> []
               then [Element ''mechanisms'' [(''xmlns'', saslNamespace)] []
                       (map (\<lambda>a. Element ''mechanism'' [] (Mechanism (mech a)) [])
                          (initializeAuthenticators (SASL c) []))]
               else [])
              @ (if ''registration'' \<in> ModulesEnabled c
                 then [Element ''register''
                         [(''xmlns'', ''http://jabber.org/features/iq-register'')] [] []]
                 else [])))"
proof -
  let ?s0 = "New e ident t c"
  let ?s1 = "if connectTm ?s0 then (emit ConnectTmStop ?s0)\<lparr>connectTm := False\<rparr> else ?s0"
  let ?s2 = "openStream e (?s1\<lparr>ctx := (ctx ?s1)\<lparr>domainCtx := To el\<rparr>\<rparr>)"
  have "tr ?s1 = tr ?s0" by (simp add: emit_def)
  then have v: "validateStreamElement e ?s1 el = None"
    using assms(2) validateStreamElement_tr [of ?s1 ?s0 e el] by simp
  have props: "tr ?s2 = t" "IsSecured ?s2" "\<not> IsAuthenticated ?s2"
    "authrs ?s2 = initializeAuthenticators (SASL c) []" "ModulesEnabled (cfg ?s2) = ModulesEnabled c"
    using assms(1)
    by (simp_all add: New_def Let_def NewJID_def NewContext_def openStream_def emit_def
        IsSecured_def IsAuthenticated_def split: transport_type.split)
  have hc: "handleConnecting e ?s0 el =
      writeElement (setState ?s2 connected)
        (AppendElements
           (SetAttribute (SetAttribute (NewElementName ''stream:features'') ''xmlns:stream''
              streamNamespace) ''version'' ''1.0'')
           (unauthenticatedFeatures ?s2))"
    using v props(3) by (simp add: handleConnecting_def Let_def)
  have uf: "unauthenticatedFeatures ?s2 =
      (if initializeAuthenticators (SASL c) [] \<noteq> []
               then [Element ''mechanisms'' [(''xmlns'', saslNamespace)] []
                       (map (\<lambda>a. Element ''mechanism'' [] (Mechanism (mech a)) [])
                          (initializeAuthenticators (SASL c) []))]
               else [])
              @ (if ''registration'' \<in> ModulesEnabled c
                 then [Element ''register''
                         [(''xmlns'', ''http://jabber.org/features/iq-register'')] [] []]
                 else [])"
    unfolding unauthenticatedFeatures_eq using props assms(1) by simp
  show ?thesis
    unfolding hc uf
    by (simp add: writeElement_def emit_def setState_def getState_def NewElementName_def)
qed

lemma login_reaches_session:
  "actorLoop env0 socketStream login = Some sessionStream"
  by code_simp

lemma authenticated_reached:
  "actorLoop env0 (New env0 ''stream-2'' Socket cfg0)
     (map ReadElement [streamOpen, starttlsElem, streamOpen, authPlain, streamOpen])
   = Some (authenticatedWith cfg0)"
  "actorLoop env0 (New env0 ''stream-2'' Socket cfgOverride)
     (map ReadElement [streamOpen, starttlsElem, streamOpen, authPlain, streamOpen])
   = Some (authenticatedWith cfgOverride)"
  by code_simp+

subsection \<open>Stream features\<close>

text \<open>
  C5. The features offered to a stream that is not authenticated are, in this order:
  starttls with the child required exactly when the transport is a socket and the stream
  is not secured; the SASL mechanisms, one child for each authenticator in the order of
  the list, exactly when the transport is not a socket or the stream is secured, and
  there is an authenticator; the registration feature exactly when the registration
  module is enabled and the stream is secured. A valid stream open of a stream that is not
  authenticated takes it to state connected, and the element written last is
  stream:features with these features as children. The authenticators of a new stream
  are those of the configured names, in the order of the configuration.
\<close>

theorem unauthenticatedFeatures_contents:
  "unauthenticatedFeatures s =
     (if tr s = Socket \<and> \<not> IsSecured s
      then [Element ''starttls'' [(''xmlns'', tlsNamespace)] [] [Element ''required'' [] [] []]]
      else [])
     @ (if (tr s \<noteq> Socket \<or> IsSecured s) \<and> authrs s \<noteq> []
        then [Element ''mechanisms'' [(''xmlns'', saslNamespace)] []
                (map (\<lambda>a. Element ''mechanism'' [] (Mechanism (mech a)) []) (authrs s))]
        else [])
     @ (if ''registration'' \<in> ModulesEnabled (cfg s) \<and> IsSecured s
        then [Element ''register'' [(''xmlns'', ''http://jabber.org/features/iq-register'')] [] []]
        else [])
   \<and> (''starttls'' \<in> Name ` set (unauthenticatedFeatures s)) = (tr s = Socket \<and> \<not> IsSecured s)
   \<and> (''mechanisms'' \<in> Name ` set (unauthenticatedFeatures s))
       = ((tr s \<noteq> Socket \<or> IsSecured s) \<and> authrs s \<noteq> [])
   \<and> (''register'' \<in> Name ` set (unauthenticatedFeatures s))
       = (''registration'' \<in> ModulesEnabled (cfg s) \<and> IsSecured s)
   \<and> (validateStreamElement e s el = None \<and> \<not> IsAuthenticated s \<longrightarrow>
        getState (handleConnecting e s el) = connected
        \<and> last (trace (handleConnecting e s el)) =
            WriteElement
              (Element ''stream:features''
                 [(''xmlns:stream'', streamNamespace), (''version'', ''1.0'')] []
                 (unauthenticatedFeatures s)))
   \<and> authrs (New e ident t c) = initializeAuthenticators (SASL c) []
   \<and> map (\<lambda>a. Mechanism (mech a)) (initializeAuthenticators sasl []) =
       concat (map (\<lambda>a. if a = ''plain'' then [''PLAIN'']
                        else if a = ''digest_md5'' then [''DIGEST-MD5'']
                        else if a = ''scram_sha_1'' then [''SCRAM-SHA-1'', ''SCRAM-SHA-1-PLUS'']
                        else if a = ''scram_sha_256'' then [''SCRAM-SHA-256'', ''SCRAM-SHA-256-PLUS'']
                        else []) sasl)"
proof (intro conjI)
  show "authrs (New e ident t c) = initializeAuthenticators (SASL c) []"
    by (simp add: New_def Let_def NewJID_def)
next
  show "validateStreamElement e s el = None \<and> \<not> IsAuthenticated s \<longrightarrow>
        getState (handleConnecting e s el) = connected
        \<and> last (trace (handleConnecting e s el)) =
            WriteElement
              (Element ''stream:features''
                 [(''xmlns:stream'', streamNamespace), (''version'', ''1.0'')] []
                 (unauthenticatedFeatures s))"
    using handleConnecting_features by blast
next
  show "(''starttls'' \<in> Name ` set (unauthenticatedFeatures s)) = (tr s = Socket \<and> \<not> IsSecured s)"
    unfolding unauthenticatedFeatures_eq by auto
next
  show "(''mechanisms'' \<in> Name ` set (unauthenticatedFeatures s))
       = ((tr s \<noteq> Socket \<or> IsSecured s) \<and> authrs s \<noteq> [])"
    unfolding unauthenticatedFeatures_eq by auto
next
  show "(''register'' \<in> Name ` set (unauthenticatedFeatures s))
       = (''registration'' \<in> ModulesEnabled (cfg s) \<and> IsSecured s)"
    unfolding unauthenticatedFeatures_eq by auto
qed (simp_all add: unauthenticatedFeatures_eq initializeAuthenticators_mechanisms)

text \<open>
  The instance of C5 at a new stream over a socket, which is not secured and is offered
  starttls alone.
\<close>

theorem unauthenticatedFeatures_contents_witness:
  "tr socketStream = Socket \<and> \<not> IsSecured socketStream
   \<and> unauthenticatedFeatures socketStream =
       [Element ''starttls'' [(''xmlns'', ''urn:ietf:params:xml:ns:xmpp-tls'')] []
          [Element ''required'' [] [] []]]
   \<and> ''starttls'' \<in> Name ` set (unauthenticatedFeatures socketStream)
   \<and> ''mechanisms'' \<notin> Name ` set (unauthenticatedFeatures socketStream)
   \<and> validateStreamElement env0 socketStream streamOpen = None
   \<and> getState (handleConnecting env0 socketStream streamOpen) = connected
   \<and> last (trace (handleConnecting env0 socketStream streamOpen)) =
       WriteElement
         (Element ''stream:features''
            [(''xmlns:stream'', ''http://etherx.jabber.org/streams''), (''version'', ''1.0'')] []
            [Element ''starttls'' [(''xmlns'', ''urn:ietf:params:xml:ns:xmpp-tls'')] []
               [Element ''required'' [] [] []]])
   \<and> map (\<lambda>a. Mechanism (mech a)) (initializeAuthenticators [''scram_sha_1'', ''plain''] [])
       = [''SCRAM-SHA-1'', ''SCRAM-SHA-1-PLUS'', ''PLAIN'']"
proof -
  have 1: "tr socketStream = Socket" by code_simp
  have 2: "\<not> IsSecured socketStream" by code_simp
  have 3: "authrs socketStream \<noteq> []" by code_simp
  have 4: "''registration'' \<in> ModulesEnabled (cfg socketStream)" by code_simp
  have 5: "validateStreamElement env0 socketStream streamOpen = None" by code_simp
  have 6: "\<not> IsAuthenticated socketStream" by code_simp
  show ?thesis
    using 1 2 3 4 5 6
      unauthenticatedFeatures_contents [of socketStream env0 streamOpen "''stream-2''" Socket cfg0
        "[''scram_sha_1'', ''plain'']"]
    by (simp add: tlsNamespace_def streamNamespace_def)
qed

subsection \<open>The stream open\<close>

text \<open>
  C6, as amended. A stream open (the name and the namespaces the transport expects)
  received in state connecting whose attribute to is not empty and is not a local domain
  fails validation with host-unknown: the stream error is written and the stream ends in
  state disconnected.
\<close>

theorem host_unknown_disconnects:
  assumes "getState s = connecting"
    and "Name el = (case tr s of Socket \<Rightarrow> ''stream:stream'' | WebSocket \<Rightarrow> ''open'')"
    and "Namespace el =
      (case tr s of Socket \<Rightarrow> jabberClientNamespace | WebSocket \<Rightarrow> framedStreamNamespace)"
    and "tr s = Socket \<Longrightarrow> Get (Attributes el) ''xmlns:stream'' = streamNamespace"
    and "To el \<noteq> []" and "\<not> IsLocalDomain e (To el)"
  shows "validateStreamElement e s el = Some ErrHostUnknown
    \<and> handleElement e s el = Some (handleConnecting e s el)
    \<and> getState (handleConnecting e s el) = disconnected
    \<and> WriteStreamError ErrHostUnknown \<in> set (trace (handleConnecting e s el))"
proof -
  let ?s1 = "if connectTm s then (emit ConnectTmStop s)\<lparr>connectTm := False\<rparr> else s"
  have tr1: "tr ?s1 = tr s" by (simp add: emit_def)
  have v: "validateStreamElement e s el = Some ErrHostUnknown"
    using assms(2-6) by (rule validateStreamElement_host_unknown)
  have v1: "validateStreamElement e ?s1 el = Some ErrHostUnknown"
    using assms(2-6) tr1 by (intro validateStreamElement_host_unknown) simp_all
  have hc: "handleConnecting e s el = disconnectWithStreamError e ?s1 ErrHostUnknown"
    using v1 by (simp add: handleConnecting_def Let_def)
  have "Name el \<noteq> ''close''"
    using assms(2) by (cases "tr s") simp_all
  then have he: "handleElement e s el = Some (handleConnecting e s el)"
    using assms(1) by (simp add: handleElement_def Let_def)
  show ?thesis
    using v he hc trace_disconnectWithStreamError by simp
qed

text \<open>The instance of C6 at a new stream and an open for example.org.\<close>

theorem host_unknown_disconnects_witness:
  "getState socketStream = connecting
   \<and> To streamOpenForeign = ''example.org''
   \<and> validateStreamElement env0 socketStream streamOpenForeign = Some ErrHostUnknown
   \<and> handleElement env0 socketStream streamOpenForeign
       = Some (handleConnecting env0 socketStream streamOpenForeign)
   \<and> getState (handleConnecting env0 socketStream streamOpenForeign) = disconnected
   \<and> WriteStreamError ErrHostUnknown
       \<in> set (trace (handleConnecting env0 socketStream streamOpenForeign))"
proof -
  have 1: "getState socketStream = connecting" by code_simp
  have 2: "Name streamOpenForeign =
      (case tr socketStream of Socket \<Rightarrow> ''stream:stream'' | WebSocket \<Rightarrow> ''open'')"
    by code_simp
  have 3: "Namespace streamOpenForeign =
      (case tr socketStream of Socket \<Rightarrow> jabberClientNamespace
       | WebSocket \<Rightarrow> framedStreamNamespace)"
    by code_simp
  have 4: "tr socketStream = Socket \<Longrightarrow>
      Get (Attributes streamOpenForeign) ''xmlns:stream'' = streamNamespace"
    by code_simp
  have 5: "To streamOpenForeign = ''example.org''" by code_simp
  have 6: "\<not> IsLocalDomain env0 (To streamOpenForeign)" by code_simp
  from 5 have 7: "To streamOpenForeign \<noteq> []" by simp
  show ?thesis
    using 1 5 host_unknown_disconnects [OF 1 2 3 4 7 6] by simp
qed

text \<open>
  C6 as stated fails where the attribute to is empty: the empty string is not a local
  domain, validateStreamElement tests the domain of a non-empty attribute only, and the
  stream goes on to state connected.
\<close>

theorem host_unknown_counterexample:
  "getState socketStream = connecting
   \<and> Name streamOpenEmptyTo = ''stream:stream''
   \<and> \<not> IsLocalDomain env0 (To streamOpenEmptyTo)
   \<and> validateStreamElement env0 socketStream streamOpenEmptyTo = None
   \<and> map_option getState (handleElement env0 socketStream streamOpenEmptyTo) = Some connected"
  by code_simp

subsection \<open>Legacy authentication\<close>

text \<open>
  C7. In state connected, an iq element that builds into a stanza, that the registration
  module does not match and that has a child query in the namespace jabber:iq:auth is
  answered with the stanza error service-unavailable; nothing else changes, and the
  state is still connected.
\<close>

theorem legacy_auth_iq_service_unavailable:
  assumes "getState s = connected" and "Name el = ''iq''"
    and "buildStanza e s el False = Inr iq"
    and "\<not> (register s \<and> MatchesIQ e RegisterModule iq)"
    and "ChildNamespace (Elements (elem iq)) ''query'' ''jabber:iq:auth'' \<noteq> None"
  shows "handleElement e s el
           = Some (s\<lparr>trace := trace s @ [WriteStanzaError (elem iq) ErrServiceUnavailable []]\<rparr>)
    \<and> getState (s\<lparr>trace := trace s @ [WriteStanzaError (elem iq) ErrServiceUnavailable []]\<rparr>)
        = connected"
proof -
  have "handleConnected e s el = writeStanzaError s (elem iq) ErrServiceUnavailable []"
    using assms(2-5) by (auto simp add: handleConnected_def)
  moreover have "handleElement e s el = Some (handleConnected e s el)"
    using assms(1,2) by (simp add: handleElement_def Let_def)
  ultimately show ?thesis
    using assms(1) by (simp add: writeStanzaError_def emit_def getState_def)
qed

text \<open>The instance of C7 at a stream that has just been opened.\<close>

theorem legacy_auth_iq_service_unavailable_witness:
  "getState connectedStream = connected
   \<and> buildStanza env0 connectedStream legacyAuthIQ False
       = Inr \<lparr>kind = IQKind, elem = legacyAuthIQ,
              fromJID = \<lparr>node = [], domain = ''localhost'', resource = []\<rparr>,
              toJID = \<lparr>node = [], domain = ''localhost'', resource = []\<rparr>\<rparr>
   \<and> handleElement env0 connectedStream legacyAuthIQ
       = Some (connectedStream\<lparr>trace := trace connectedStream
                 @ [WriteStanzaError legacyAuthIQ ErrServiceUnavailable []]\<rparr>)"
proof -
  let ?iq = "\<lparr>kind = IQKind, elem = legacyAuthIQ,
              fromJID = \<lparr>node = [], domain = ''localhost'', resource = []\<rparr>,
              toJID = \<lparr>node = [], domain = ''localhost'', resource = []\<rparr>\<rparr>"
  have 1: "getState connectedStream = connected" by code_simp
  have 2: "Name legacyAuthIQ = ''iq''" by code_simp
  have 3: "buildStanza env0 connectedStream legacyAuthIQ False = Inr ?iq" by code_simp
  have 4: "\<not> (register connectedStream \<and> MatchesIQ env0 RegisterModule ?iq)" by code_simp
  have 5: "ChildNamespace (Elements (elem ?iq)) ''query'' ''jabber:iq:auth'' \<noteq> None"
    by code_simp
  show ?thesis
    using 1 3 legacy_auth_iq_service_unavailable [OF 1 2 3 4 5] by simp
qed

subsection \<open>Messages\<close>

text \<open>
  C1. The code at the failing input: in a started session, when a message of type chat or
  groupchat that has a body is addressed to a local domain, the router answers
  ErrNotAuthenticated (the recipient is offline) and the offline module is enabled,
  processMessage returns after the one call of Route: the offline module is not asked to
  archive the message, and nothing is written to the sender. The claim asks for the
  message to be archived, as do the comment that introduces the module as offline message
  storage and the description of the server, which stores the messages sent to an offline
  user.
\<close>

theorem chat_with_body_not_archived:
  assumes "IsLocalDomain e (domain (toJID m))" and "Route e m = Some ErrNotAuthenticated"
    and "offline s" and "(IsChat m \<or> IsGroupChat m) \<and> IsMessageWithBody m"
  shows "processMessage e s m = Some (s\<lparr>trace := trace s @ [RouterRoute m]\<rparr>)
    \<and> OfflineArchiveMessage m \<notin> set [RouterRoute m]"
  using assms by (simp add: processMessage_def Let_def sendMessage_not_authenticated)

text \<open>
  The instance of C1 at the message of scenario S4, of type chat with a body, sent to bob,
  who is offline: the element is handled by routing the message once, and that is all.
\<close>

theorem chat_with_body_not_archived_witness:
  "getState sessionStream = sessionStarted
   \<and> offline sessionStream
   \<and> buildStanza env0 sessionStream chatMessage True = Inr (messageStanza chatMessage [])
   \<and> IsLocalDomain env0 (domain (toJID (messageStanza chatMessage [])))
   \<and> Route env0 (messageStanza chatMessage []) = Some ErrNotAuthenticated
   \<and> IsChat (messageStanza chatMessage []) \<and> IsMessageWithBody (messageStanza chatMessage [])
   \<and> processMessage env0 sessionStream (messageStanza chatMessage []) =
       Some (sessionStream\<lparr>trace := trace sessionStream
               @ [RouterRoute (messageStanza chatMessage [])]\<rparr>)
   \<and> handleElement env0 sessionStream chatMessage =
       Some (sessionStream\<lparr>trace := trace sessionStream
               @ [RouterRoute (messageStanza chatMessage [])]\<rparr>)
   \<and> OfflineArchiveMessage (messageStanza chatMessage [])
       \<notin> set (trace sessionStream @ [RouterRoute (messageStanza chatMessage [])])"
proof -
  have 0: "getState sessionStream = sessionStarted" by code_simp
  have 1: "IsLocalDomain env0 (domain (toJID (messageStanza chatMessage [])))" by code_simp
  have 2: "Route env0 (messageStanza chatMessage []) = Some ErrNotAuthenticated" by code_simp
  have 3: "offline sessionStream" by code_simp
  have 4: "IsChat (messageStanza chatMessage [])" by code_simp
  have 5: "IsMessageWithBody (messageStanza chatMessage [])" by code_simp
  from 4 5 have 6: "(IsChat (messageStanza chatMessage []) \<or> IsGroupChat (messageStanza chatMessage []))
      \<and> IsMessageWithBody (messageStanza chatMessage [])" by simp
  have 7: "buildStanza env0 sessionStream chatMessage True = Inr (messageStanza chatMessage [])"
    by code_simp
  have 8: "handleElement env0 sessionStream chatMessage =
       Some (sessionStream\<lparr>trace := trace sessionStream
               @ [RouterRoute (messageStanza chatMessage [])]\<rparr>)"
    by code_simp
  have 9: "OfflineArchiveMessage (messageStanza chatMessage [])
       \<notin> set (trace sessionStream @ [RouterRoute (messageStanza chatMessage [])])"
    by code_simp
  show ?thesis
    using 0 1 2 3 4 5 7 8 9 chat_with_body_not_archived [OF 1 2 3 6] by simp
qed

text \<open>
  C2. The code at the failing input: when the router answers ErrResourceNotFound for a
  message to a local domain, processMessage jumps back to the label with the same
  message, which the router answers in the same way; the handler never returns, and
  after \<open>n\<close> passes, for every \<open>n\<close>, it has called Route \<open>n\<close> times with the message
  as it was received and is at the label again. The claim asks for one retry to the bare
  JID and at most two calls of Route.
\<close>

theorem resource_not_found_never_returns:
  assumes "IsLocalDomain e (domain (toJID m))" and "Route e m = Some ErrResourceNotFound"
  shows "processMessage e s m = None
    \<and> sendMessageUpTo n e s m (toJID m)
        = Inr (s\<lparr>trace := trace s @ replicate n (RouterRoute m)\<rparr>)"
proof -
  have "processMessage e s m = None"
  proof (cases "processMessage e s m")
    case None
    then show ?thesis .
  next
    case (Some y)
    then have "sendMessage e s m (toJID m) = Some y"
      using assms(1) by (simp add: processMessage_def Let_def)
    then have "Route e m \<noteq> Some ErrResourceNotFound" by (rule sendMessage_returns)
    with assms(2) show ?thesis by simp
  qed
  with sendMessageUpTo_resource_not_found [OF assms(2)] show ?thesis by simp
qed

text \<open>
  The instance of C2 at a message to bob@localhost/phone, a resource that is not bound.
\<close>

theorem resource_not_found_never_returns_witness:
  "getState sessionStream = sessionStarted
   \<and> buildStanza env0 sessionStream phoneMessage True = Inr (messageStanza phoneMessage ''phone'')
   \<and> IsLocalDomain env0 (domain (toJID (messageStanza phoneMessage ''phone'')))
   \<and> Route env0 (messageStanza phoneMessage ''phone'') = Some ErrResourceNotFound
   \<and> processMessage env0 sessionStream (messageStanza phoneMessage ''phone'') = None
   \<and> sendMessageUpTo 3 env0 sessionStream (messageStanza phoneMessage ''phone'')
         (toJID (messageStanza phoneMessage ''phone''))
       = Inr (sessionStream\<lparr>trace := trace sessionStream
                @ [RouterRoute (messageStanza phoneMessage ''phone''),
                   RouterRoute (messageStanza phoneMessage ''phone''),
                   RouterRoute (messageStanza phoneMessage ''phone'')]\<rparr>)"
proof -
  have 0: "getState sessionStream = sessionStarted" by code_simp
  have 1: "buildStanza env0 sessionStream phoneMessage True
      = Inr (messageStanza phoneMessage ''phone'')" by code_simp
  have 2: "IsLocalDomain env0 (domain (toJID (messageStanza phoneMessage ''phone'')))"
    by code_simp
  have 3: "Route env0 (messageStanza phoneMessage ''phone'') = Some ErrResourceNotFound"
    by code_simp
  show ?thesis
    using 0 1 2 3 resource_not_found_never_returns [OF 2 3, of sessionStream 3]
    by (simp add: numeral_3_eq_3)
qed

subsection \<open>Blocking\<close>

text \<open>
  C9. For a stanza whose destination is a server JID (no node, no resource) of a local
  domain, the blocked-JID check of the stream is false whatever the blocklist of the
  router says; processStanza goes on to the dispatch by kind, and no event it adds to the
  trace is a not-acceptable stanza error, the error that carries the blocked element.
\<close>

theorem server_jid_never_blocked:
  assumes "node (toJID st) = []" and "resource (toJID st) = []"
    and "IsLocalDomain e (domain (toJID st))"
  shows "\<not> isBlockedJID e s (toJID st)
    \<and> processStanza e s st =
        (case kind st of
           PresenceKind \<Rightarrow> Some (processPresence e s st)
         | IQKind \<Rightarrow> Some (processIQ e s st)
         | MessageKind \<Rightarrow> processMessage e s st)
    \<and> (\<forall>s'. processStanza e s st = Some s' \<longrightarrow>
          (\<exists>evs. trace s' = trace s @ evs
             \<and> (\<forall>el app. WriteStanzaError el ErrNotAcceptable app \<notin> set evs)))"
proof -
  have nb: "\<not> isBlockedJID e s (toJID st)"
    using assms by (simp add: isBlockedJID_def IsServer_def)
  then have ps: "processStanza e s st =
        (case kind st of
           PresenceKind \<Rightarrow> Some (processPresence e s st)
         | IQKind \<Rightarrow> Some (processIQ e s st)
         | MessageKind \<Rightarrow> processMessage e s st)"
    by (simp add: processStanza_def Let_def)
  have "\<exists>evs. trace s' = trace s @ evs
      \<and> (\<forall>el app. WriteStanzaError el ErrNotAcceptable app \<notin> set evs)"
    if r: "processStanza e s st = Some s'" for s'
  proof (cases "kind st")
    case IQKind
    with r ps show ?thesis using processIQ_no_not_acceptable [of e s st] by simp
  next
    case PresenceKind
    with r ps show ?thesis using processPresence_no_not_acceptable [of e s st] by simp
  next
    case MessageKind
    with r ps have "sendMessage e s st (toJID st) = Some s'"
      using assms(3) by (simp add: processMessage_def Let_def)
    then show ?thesis by (rule sendMessage_no_not_acceptable)
  qed
  with nb ps show ?thesis by blast
qed

text \<open>
  The instance of C9 at a ping to the server, with a router that reports every JID as blocked.
\<close>

theorem server_jid_never_blocked_witness:
  "buildStanza blockingAll sessionStream serverPing True = Inr serverPingStanza
   \<and> node (toJID serverPingStanza) = [] \<and> resource (toJID serverPingStanza) = []
   \<and> IsLocalDomain blockingAll (domain (toJID serverPingStanza))
   \<and> IsBlockedJID blockingAll (toJID serverPingStanza) (Username sessionStream)
   \<and> \<not> isBlockedJID blockingAll sessionStream (toJID serverPingStanza)
   \<and> processStanza blockingAll sessionStream serverPingStanza
       = Some (sessionStream\<lparr>trace := trace sessionStream
                 @ [WriteStanzaError serverPing ErrServiceUnavailable []]\<rparr>)"
proof -
  have 0: "buildStanza blockingAll sessionStream serverPing True = Inr serverPingStanza"
    by code_simp
  have 1: "node (toJID serverPingStanza) = []" by code_simp
  have 6: "resource (toJID serverPingStanza) = []" by code_simp
  have 2: "IsLocalDomain blockingAll (domain (toJID serverPingStanza))" by code_simp
  have 3: "IsBlockedJID blockingAll (toJID serverPingStanza) (Username sessionStream)"
    by code_simp
  have 4: "processIQ blockingAll sessionStream serverPingStanza
      = sessionStream\<lparr>trace := trace sessionStream
          @ [WriteStanzaError serverPing ErrServiceUnavailable []]\<rparr>"
    by code_simp
  have 5: "kind serverPingStanza = IQKind" by code_simp
  show ?thesis
    using 0 1 2 3 4 5 6 server_jid_never_blocked [OF 1 6 2, of sessionStream] by simp
qed

subsection \<open>Resource binding\<close>

text \<open>
  C3. With the policy disallow, a bind request in state authenticated (no resource bound
  yet) that asks for a resource another stream of the same bare JID has is answered with
  the stanza error conflict; only the written element is added to the stream: the state,
  the context (resource, JID) are as before and the router is not called to register
  the stream. The same request, sent again, is answered in the same way.
\<close>

theorem bind_conflict_disallow:
  assumes "getState s = authenticated" and "Resource s = []" and "Name el = ''iq''"
    and "buildStanza e s el True = Inr iq"
    and "ChildNamespace (Elements (elem iq)) ''bind'' bindNamespace = Some bind"
    and "Child (Elements bind) ''resource'' = Some resourceElem"
    and "(other, Text resourceElem) \<in> set (StreamsMatchingJID e (ToBareJID (JID' s)))"
    and "ResourceConflict (cfg s) = Disallow"
  shows "handleElement e s el
           = Some (s\<lparr>trace := trace s @ [WriteStanzaError (elem iq) ErrConflict []]\<rparr>)
    \<and> handleElement e (s\<lparr>trace := trace s @ [WriteStanzaError (elem iq) ErrConflict []]\<rparr>) el
           = Some (s\<lparr>trace := trace s @ [WriteStanzaError (elem iq) ErrConflict [],
                                        WriteStanzaError (elem iq) ErrConflict []]\<rparr>)
    \<and> getState (s\<lparr>trace := trace s @ [WriteStanzaError (elem iq) ErrConflict []]\<rparr>)
        = authenticated
    \<and> ctx (s\<lparr>trace := trace s @ [WriteStanzaError (elem iq) ErrConflict []]\<rparr>) = ctx s
    \<and> Resource (s\<lparr>trace := trace s @ [WriteStanzaError (elem iq) ErrConflict []]\<rparr>) = []
    \<and> RouterAuthenticateStream \<notin> set [WriteStanzaError (elem iq) ErrConflict []]"
proof -
  have step: "handleElement e s' el
      = Some (s'\<lparr>trace := trace s' @ [WriteStanzaError (elem iq) ErrConflict []]\<rparr>)"
    if "getState s' = authenticated" and "Resource s' = []"
      and "buildStanza e s' el True = Inr iq"
      and "(other, Text resourceElem) \<in> set (StreamsMatchingJID e (ToBareJID (JID' s')))"
      and "ResourceConflict (cfg s') = Disallow" for s'
  proof -
    have "bindResource e s' iq
        = s'\<lparr>trace := trace s' @ [WriteStanzaError (elem iq) ErrConflict []]\<rparr>"
      using assms(5,6) that(4,5) by (rule bindResource_disallow)
    then have "handleAuthenticated e s' el
        = s'\<lparr>trace := trace s' @ [WriteStanzaError (elem iq) ErrConflict []]\<rparr>"
      using assms(3) that(2,3) by (simp add: handleAuthenticated_def)
    then show ?thesis
      using assms(3) that(1) by (simp add: handleElement_def Let_def)
  qed
  let ?s1 = "s\<lparr>trace := trace s @ [WriteStanzaError (elem iq) ErrConflict []]\<rparr>"
  have 1: "handleElement e s el = Some ?s1"
    using assms(1,2,4,7,8) by (rule step)
  have "handleElement e ?s1 el
      = Some (?s1\<lparr>trace := trace ?s1 @ [WriteStanzaError (elem iq) ErrConflict []]\<rparr>)"
    using assms(1,2,4,7,8)
    by (intro step) (simp_all add: getState_def Resource_def JID'_def)
  with 1 assms(1,2) show ?thesis by (simp add: getState_def Resource_def)
qed

text \<open>
  The instance of C3 at alice's authenticated stream and the resource home of her other stream.
\<close>

theorem bind_conflict_disallow_witness:
  "getState (authenticatedWith cfg0) = authenticated
   \<and> Resource (authenticatedWith cfg0) = []
   \<and> buildStanza env0 (authenticatedWith cfg0) bindHome True = Inr bindHomeStanza
   \<and> StreamsMatchingJID env0 (ToBareJID (JID' (authenticatedWith cfg0))) = [(''stream-1'', ''home'')]
   \<and> ResourceConflict (cfg (authenticatedWith cfg0)) = Disallow
   \<and> handleElement env0 (authenticatedWith cfg0) bindHome
       = Some ((authenticatedWith cfg0)\<lparr>trace := trace (authenticatedWith cfg0)
                 @ [WriteStanzaError bindHome ErrConflict []]\<rparr>)
   \<and> handleElement env0 ((authenticatedWith cfg0)\<lparr>trace := trace (authenticatedWith cfg0)
                 @ [WriteStanzaError bindHome ErrConflict []]\<rparr>) bindHome
       = Some ((authenticatedWith cfg0)\<lparr>trace := trace (authenticatedWith cfg0)
                 @ [WriteStanzaError bindHome ErrConflict [],
                    WriteStanzaError bindHome ErrConflict []]\<rparr>)"
proof -
  let ?bind = "Element ''bind'' [(''xmlns'', ''urn:ietf:params:xml:ns:xmpp-bind'')] []
        [Element ''resource'' [] ''home'' []]"
  let ?res = "Element ''resource'' [] ''home'' []"
  have 1: "getState (authenticatedWith cfg0) = authenticated" by code_simp
  have 2: "Resource (authenticatedWith cfg0) = []" by code_simp
  have 3: "Name bindHome = ''iq''" by code_simp
  have 4: "buildStanza env0 (authenticatedWith cfg0) bindHome True = Inr bindHomeStanza"
    by code_simp
  have 5: "ChildNamespace (Elements (elem bindHomeStanza)) ''bind'' bindNamespace = Some ?bind"
    by code_simp
  have 6: "Child (Elements ?bind) ''resource'' = Some ?res" by code_simp
  have 7: "StreamsMatchingJID env0 (ToBareJID (JID' (authenticatedWith cfg0)))
      = [(''stream-1'', ''home'')]" by code_simp
  then have 8: "(''stream-1'', Text ?res)
      \<in> set (StreamsMatchingJID env0 (ToBareJID (JID' (authenticatedWith cfg0))))"
    by simp
  have 9: "ResourceConflict (cfg (authenticatedWith cfg0)) = Disallow" by code_simp
  have 10: "elem bindHomeStanza = bindHome" by (simp add: bindHomeStanza_def)
  show ?thesis
    using 1 2 4 7 9 10 bind_conflict_disallow [OF 1 2 3 4 5 6 8 9] by simp
qed

text \<open>
  C4. With the policy override, a bind request in state authenticated whose resource
  (the one it carries or, without one, the generated one) collides with a stream of the
  same bare JID binds the hexadecimal encoding of the SHA-256 hash of the stream id
  instead, provided the JID with that resource passes stringprep: the resource and the JID
  are set in the context, the result written carries the text node@domain/resource with
  that resource, and the stream is registered with the router.
\<close>

theorem bind_conflict_override:
  assumes "getState s = authenticated" and "Resource s = []" and "Name el = ''iq''"
    and "buildStanza e s el True = Inr iq"
    and "ChildNamespace (Elements (elem iq)) ''bind'' bindNamespace = Some bind"
    and "(other, case Child (Elements bind) ''resource'' of
                   Some resourceElem \<Rightarrow> Text resourceElem
                 | None \<Rightarrow> uuidNew e (uuids s))
           \<in> set (StreamsMatchingJID e (ToBareJID (JID' s)))"
    and "ResourceConflict (cfg s) = Override"
    and "NewJID e (Username s) (Domain' s) (EncodeToString (sha256 e (streamID s))) False
           = Some userJID"
  shows "handleElement e s el = Some (bindResource e s iq)
    \<and> Resource (bindResource e s iq) = EncodeToString (sha256 e (streamID s))
    \<and> JID' (bindResource e s iq) = userJID
    \<and> getState (bindResource e s iq) = authenticated
    \<and> trace (bindResource e s iq) = trace s @
        [WriteElement
           (Element ''iq''
              [(''id'', ID (elem iq)), (''type'', ''result''), (''xmlns'', Namespace (elem iq))] []
              [Element ''bind'' [(''xmlns'', bindNamespace)] []
                 [Element ''jid'' []
                    (Username s @ ''@'' @ Domain' s @ ''/''
                       @ EncodeToString (sha256 e (streamID s))) []]]),
         RouterAuthenticateStream]"
proof -
  have "handleAuthenticated e s el = bindResource e s iq"
    using assms(2,3,4) by (simp add: handleAuthenticated_def)
  then have 1: "handleElement e s el = Some (bindResource e s iq)"
    using assms(1,3) by (simp add: handleElement_def Let_def)
  from bindResource_override [OF assms(5,6,7,8)] 1 assms(1)
  show ?thesis by (simp add: getState_def)
qed

text \<open>
  The instance of C4 at alice's authenticated stream under the policy override.
\<close>

theorem bind_conflict_override_witness:
  "getState (authenticatedWith cfgOverride) = authenticated
   \<and> Resource (authenticatedWith cfgOverride) = []
   \<and> buildStanza env0 (authenticatedWith cfgOverride) bindHome True = Inr bindHomeStanza
   \<and> StreamsMatchingJID env0 (ToBareJID (JID' (authenticatedWith cfgOverride)))
       = [(''stream-1'', ''home'')]
   \<and> ResourceConflict (cfg (authenticatedWith cfgOverride)) = Override
   \<and> sha256 env0 (streamID (authenticatedWith cfgOverride)) = digestOfStream2
   \<and> EncodeToString digestOfStream2 = ''1dc4fef329d7839285d2fcdaf896c3218178612c08a1e0c5a839cb1cf2617aaf''
   \<and> handleElement env0 (authenticatedWith cfgOverride) bindHome
       = Some (bindResource env0 (authenticatedWith cfgOverride) bindHomeStanza)
   \<and> Resource (bindResource env0 (authenticatedWith cfgOverride) bindHomeStanza) = ''1dc4fef329d7839285d2fcdaf896c3218178612c08a1e0c5a839cb1cf2617aaf''
   \<and> JID' (bindResource env0 (authenticatedWith cfgOverride) bindHomeStanza)
       = \<lparr>node = ''alice'', domain = ''localhost'', resource = ''1dc4fef329d7839285d2fcdaf896c3218178612c08a1e0c5a839cb1cf2617aaf''\<rparr>
   \<and> trace (bindResource env0 (authenticatedWith cfgOverride) bindHomeStanza)
       = trace (authenticatedWith cfgOverride) @
         [WriteElement
           (Element ''iq'' [(''id'', ''b2''), (''type'', ''result''), (''xmlns'', [])] []
              [Element ''bind'' [(''xmlns'', ''urn:ietf:params:xml:ns:xmpp-bind'')] []
                 [Element ''jid'' []
                    (''alice@localhost/''
                       @ ''1dc4fef329d7839285d2fcdaf896c3218178612c08a1e0c5a839cb1cf2617aaf'')
                    []]]),
          RouterAuthenticateStream]"
proof -
  let ?s = "authenticatedWith cfgOverride"
  let ?bind = "Element ''bind'' [(''xmlns'', ''urn:ietf:params:xml:ns:xmpp-bind'')] []
        [Element ''resource'' [] ''home'' []]"
  have 1: "getState ?s = authenticated" by code_simp
  have 2: "Resource ?s = []" by code_simp
  have 3: "Name bindHome = ''iq''" by code_simp
  have 4: "buildStanza env0 ?s bindHome True = Inr bindHomeStanza" by code_simp
  have 5: "ChildNamespace (Elements (elem bindHomeStanza)) ''bind'' bindNamespace = Some ?bind"
    by code_simp
  have 6: "StreamsMatchingJID env0 (ToBareJID (JID' ?s)) = [(''stream-1'', ''home'')]"
    by code_simp
  have req: "(case Child (Elements ?bind) ''resource'' of
                   Some resourceElem \<Rightarrow> Text resourceElem
                 | None \<Rightarrow> uuidNew env0 (uuids ?s)) = ''home''" by code_simp
  have 7: "(''stream-1'', case Child (Elements ?bind) ''resource'' of
                   Some resourceElem \<Rightarrow> Text resourceElem
                 | None \<Rightarrow> uuidNew env0 (uuids ?s))
      \<in> set (StreamsMatchingJID env0 (ToBareJID (JID' ?s)))"
    unfolding 6 req by simp
  have 8: "ResourceConflict (cfg ?s) = Override" by code_simp
  have 9: "sha256 env0 (streamID ?s) = digestOfStream2" by code_simp
  have 10: "EncodeToString digestOfStream2 = ''1dc4fef329d7839285d2fcdaf896c3218178612c08a1e0c5a839cb1cf2617aaf''" by code_simp
  have 11: "NewJID env0 (Username ?s) (Domain' ?s) (EncodeToString (sha256 env0 (streamID ?s)))
      False = Some \<lparr>node = ''alice'', domain = ''localhost'', resource = ''1dc4fef329d7839285d2fcdaf896c3218178612c08a1e0c5a839cb1cf2617aaf''\<rparr>"
    by code_simp
  have 12: "Username ?s = ''alice''" by code_simp
  have 13: "Domain' ?s = ''localhost''" by code_simp
  have 14: "ID (elem bindHomeStanza) = ''b2''" by code_simp
  have 15: "Namespace (elem bindHomeStanza) = []" by code_simp
  show ?thesis
    using 1 2 4 6 8 9 10 12 13 14 15 bind_conflict_override [OF 1 2 3 4 5 7 8 11]
    by (simp add: bindNamespace_def)
qed

subsection \<open>The lifetime of a stream\<close>

text \<open>
  C8. After any sequence of closures run by the actor of a new stream (elements read in
  any state, presence stanzas of a started session among them, elements sent,
  disconnections), each of the roster's deliveries of pending approval notifications, the
  roster's reception of presences and the delivery of offline messages was triggered at
  most once: exactly once when its latch is set in the context and never otherwise. A
  latch that is set stays set whatever the actor runs afterwards.
\<close>

theorem deliveries_at_most_once:
  assumes "actorLoop e (New e ident t c) ms = Some s" and "actorLoop e s ms' = Some s'"
  shows "count_list (trace s) RosterDeliverPendingApprovalNotifications
           = (if rosterOnceCtx (ctx s) then 1 else 0)
    \<and> count_list (trace s) RosterReceivePresences = (if rosterOnceCtx (ctx s) then 1 else 0)
    \<and> count_list (trace s) OfflineDeliverOfflineMessages
           = (if offlineOnceCtx (ctx s) then 1 else 0)
    \<and> count_list (trace s) RosterDeliverPendingApprovalNotifications \<le> 1
    \<and> count_list (trace s) RosterReceivePresences \<le> 1
    \<and> count_list (trace s) OfflineDeliverOfflineMessages \<le> 1
    \<and> (rosterOnceCtx (ctx s) \<longrightarrow> rosterOnceCtx (ctx s'))
    \<and> (offlineOnceCtx (ctx s) \<longrightarrow> offlineOnceCtx (ctx s'))"
proof -
  from evolves_actorLoop [OF assms(1)] latched_New have "latched s"
    by (simp add: evolves_def)
  moreover from evolves_actorLoop [OF assms(2)]
  have "rosterOnceCtx (ctx s) \<longrightarrow> rosterOnceCtx (ctx s')"
    "offlineOnceCtx (ctx s) \<longrightarrow> offlineOnceCtx (ctx s')"
    by (simp_all add: evolves_def)
  ultimately show ?thesis
    by (simp add: latched_def deliveries_def)
qed

text \<open>
  The instance of C8 at a login followed by two presences, and a third presence after them.
\<close>

theorem deliveries_at_most_once_witness:
  "actorLoop env0 (New env0 ''stream-2'' Socket cfg0)
     (login @ [ReadElement presenceElem, ReadElement presenceElem]) = Some twicePresent
   \<and> actorLoop env0 twicePresent [ReadElement presenceElem]
       = Some (processPresence env0 twicePresent presenceStanza)
   \<and> rosterOnceCtx (ctx twicePresent) \<and> offlineOnceCtx (ctx twicePresent)
   \<and> count_list (trace twicePresent) RosterDeliverPendingApprovalNotifications = 1
   \<and> count_list (trace twicePresent) RosterReceivePresences = 1
   \<and> count_list (trace twicePresent) OfflineDeliverOfflineMessages = 1
   \<and> count_list (trace twicePresent) (RosterBroadcastPresence presenceStanza) = 2
   \<and> rosterOnceCtx (ctx (processPresence env0 twicePresent presenceStanza))
   \<and> offlineOnceCtx (ctx (processPresence env0 twicePresent presenceStanza))"
proof -
  have 1: "actorLoop env0 (New env0 ''stream-2'' Socket cfg0)
     (login @ [ReadElement presenceElem, ReadElement presenceElem]) = Some twicePresent"
    by code_simp
  have 2: "actorLoop env0 twicePresent [ReadElement presenceElem]
       = Some (processPresence env0 twicePresent presenceStanza)"
    by code_simp
  have 3: "rosterOnceCtx (ctx twicePresent)" by code_simp
  have 4: "offlineOnceCtx (ctx twicePresent)" by code_simp
  have 5: "count_list (trace twicePresent) (RosterBroadcastPresence presenceStanza) = 2"
    by code_simp
  show ?thesis
    using 1 2 3 4 5 deliveries_at_most_once [OF 1 2] by simp
qed

text \<open>
  C10. A stream created over a transport that is not a socket is secured from its
  creation, when its trace holds nothing but the creation of the parser, and stays so
  whatever its actor runs. Neither its unauthenticated nor its authenticated features
  contain starttls. A valid stream open as first element is answered with features whose
  children are the SASL mechanisms (when an authenticator is configured) and the
  registration feature (when enabled). In state connected, a starttls element with no
  namespace or the TLS namespace is answered with the stream error not-authorized and
  the stream ends in state disconnected.
\<close>

theorem non_socket_stream_is_secured:
  assumes "t \<noteq> Socket" and "actorLoop e (New e ident t c) ms = Some s"
  shows "IsSecured (New e ident t c) \<and> trace (New e ident t c) = [NewParser]
    \<and> IsSecured s \<and> tr s = t
    \<and> ''starttls'' \<notin> Name ` set (unauthenticatedFeatures s)
    \<and> ''starttls'' \<notin> Name ` set (authenticatedFeatures s)
    \<and> (validateStreamElement e (New e ident t c) el = None \<longrightarrow>
         handleElement e (New e ident t c) el = Some (handleConnecting e (New e ident t c) el)
         \<and> getState (handleConnecting e (New e ident t c) el) = connected
         \<and> last (trace (handleConnecting e (New e ident t c) el)) =
             WriteElement
               (Element ''stream:features''
                  [(''xmlns:stream'', streamNamespace), (''version'', ''1.0'')] []
                  ((if initializeAuthenticators (SASL c) [] \<noteq> []
                    then [Element ''mechanisms'' [(''xmlns'', saslNamespace)] []
                            (map (\<lambda>a. Element ''mechanism'' [] (Mechanism (mech a)) [])
                               (initializeAuthenticators (SASL c) []))]
                    else [])
                   @ (if ''registration'' \<in> ModulesEnabled c
                      then [Element ''register''
                              [(''xmlns'', ''http://jabber.org/features/iq-register'')] [] []]
                      else []))))
    \<and> (getState s = connected \<and> Name el' = ''starttls''
         \<and> (Namespace el' = [] \<or> Namespace el' = tlsNamespace) \<longrightarrow>
         handleElement e s el' = Some (disconnectWithStreamError e s ErrNotAuthorized)
         \<and> getState (disconnectWithStreamError e s ErrNotAuthorized) = disconnected
         \<and> WriteStreamError ErrNotAuthorized
             \<in> set (trace (disconnectWithStreamError e s ErrNotAuthorized)))"
proof -
  have new: "IsSecured (New e ident t c)" "trace (New e ident t c) = [NewParser]"
    "tr (New e ident t c) = t" "getState (New e ident t c) = connecting"
    using assms(1) by (simp_all add: New_def Let_def NewJID_def IsSecured_def getState_def)
  from evolves_actorLoop [OF assms(2)] new have s: "IsSecured s" "tr s = t"
    by (simp_all add: evolves_def IsSecured_def)
  have uf: "''starttls'' \<notin> Name ` set (unauthenticatedFeatures s)"
    using s assms(1) unfolding unauthenticatedFeatures_eq by auto
  have af: "''starttls'' \<notin> Name ` set (authenticatedFeatures s)"
    using authenticatedFeatures_names [of s] by auto
  have first: "handleElement e (New e ident t c) el = Some (handleConnecting e (New e ident t c) el)"
    if v: "validateStreamElement e (New e ident t c) el = None"
  proof -
    have "Name el = ''open''"
      using v new(3) assms(1)
      by (cases t) (auto simp add: validateStreamElement_def Let_def split: if_splits)
    then show ?thesis
      using new(4) by (simp add: handleElement_def Let_def)
  qed
  have tls: "handleElement e s el' = Some (disconnectWithStreamError e s ErrNotAuthorized)"
    if "getState s = connected" "Name el' = ''starttls''"
      "Namespace el' = [] \<or> Namespace el' = tlsNamespace"
  proof -
    have "handleConnected e s el' = disconnectWithStreamError e s ErrNotAuthorized"
      using that s(1) by (auto simp add: handleConnected_def proceedStartTLS_def)
    then show ?thesis
      using that(1,2) by (simp add: handleElement_def Let_def)
  qed
  show ?thesis
    using new(1,2) s uf af first tls handleConnecting_New_features [OF assms(1)]
      trace_disconnectWithStreamError
    by simp
qed

text \<open>
  The instance of C10 at a WebSocket stream that is opened and then sent starttls.
\<close>

theorem non_socket_stream_is_secured_witness:
  "actorLoop env0 (New env0 ''stream-3'' WebSocket cfg0) [ReadElement webSocketOpen]
     = Some (handleConnecting env0 webSocketStream webSocketOpen)
   \<and> IsSecured (New env0 ''stream-3'' WebSocket cfg0)
   \<and> validateStreamElement env0 (New env0 ''stream-3'' WebSocket cfg0) webSocketOpen = None
   \<and> last (trace (handleConnecting env0 (New env0 ''stream-3'' WebSocket cfg0) webSocketOpen)) =
       WriteElement
         (Element ''stream:features''
            [(''xmlns:stream'', ''http://etherx.jabber.org/streams''), (''version'', ''1.0'')] []
            [Element ''mechanisms'' [(''xmlns'', ''urn:ietf:params:xml:ns:xmpp-sasl'')] []
               [Element ''mechanism'' [] ''PLAIN'' [],
                Element ''mechanism'' [] ''SCRAM-SHA-1'' [],
                Element ''mechanism'' [] ''SCRAM-SHA-1-PLUS'' []],
             Element ''register'' [(''xmlns'', ''http://jabber.org/features/iq-register'')] [] []])
   \<and> getState (handleConnecting env0 webSocketStream webSocketOpen) = connected
   \<and> IsSecured (handleConnecting env0 webSocketStream webSocketOpen)
   \<and> handleElement env0 (handleConnecting env0 webSocketStream webSocketOpen) starttlsElem
       = Some (disconnectWithStreamError env0
                 (handleConnecting env0 webSocketStream webSocketOpen) ErrNotAuthorized)
   \<and> getState (disconnectWithStreamError env0
                 (handleConnecting env0 webSocketStream webSocketOpen) ErrNotAuthorized)
       = disconnected"
proof -
  let ?s = "handleConnecting env0 webSocketStream webSocketOpen"
  have 1: "WebSocket \<noteq> Socket" by simp
  have 2: "actorLoop env0 (New env0 ''stream-3'' WebSocket cfg0) [ReadElement webSocketOpen]
     = Some ?s" by code_simp
  have 3: "validateStreamElement env0 (New env0 ''stream-3'' WebSocket cfg0) webSocketOpen = None"
    by code_simp
  have 4: "getState ?s = connected" by code_simp
  have 5: "Name starttlsElem = ''starttls''" by code_simp
  have 6: "Namespace starttlsElem = tlsNamespace" by code_simp
  have 7: "initializeAuthenticators (SASL cfg0) [] =
      [NewAuthr Plain, NewAuthr (Scram ScramSHA1 False), NewAuthr (Scram ScramSHA1 True)]"
    by code_simp
  have 8: "''registration'' \<in> ModulesEnabled cfg0" by code_simp
  show ?thesis
    using 2 3 4 5 6 8
      non_socket_stream_is_secured [OF 1 2, of webSocketOpen starttlsElem]
    by (simp add: 7 NewAuthr_def streamNamespace_def saslNamespace_def)
qed

end
